theory Spec2Isabelle
  imports Main "HOL-Library.Multiset"
begin

section \<open>Values, exceptions and the response envelope\<close>

text \<open>
  Modelled from the spec: the error codes of \<^verbatim>\<open>xen.xend.XendAPIConstants\<close>, which is
  not among the sources (\<^verbatim>\<open>from xen.xend.XendAPIConstants import *\<close>). Only their names
  occur in \<^verbatim>\<open>XendAPI.py\<close>; the spec's error taxonomy lists them as different codes, so
  they are kept symbolic and distinct.
\<close>

datatype xend_error =
    XEND_ERROR_TODO
  | XEND_ERROR_UNSUPPORTED
  | XEND_ERROR_AUTHENTICATION_FAILED
  | XEND_ERROR_SESSION_INVALID
  | XEND_ERROR_HOST_INVALID
  | XEND_ERROR_HOST_CPU_INVALID
  | XEND_ERROR_HOST_RUNNING
  | XEND_ERROR_VM_INVALID
  | XEND_ERROR_VBD_INVALID
  | XEND_ERROR_VIF_INVALID
  | XEND_ERROR_DOMAIN_INVALID

text \<open>The Python values that travel through the API: arguments, results, error codes.\<close>

datatype pyval =
    Str string
  | Int int
  | Bool bool
  | NoneV
  | ErrorCode xend_error
  | ListV "pyval list"
  | Struct "(string \<times> pyval) list"

text \<open>The exceptions that the modelled code raises or catches.\<close>

datatype exn =
    AttributeError string
  | TypeError
  | XendError
  | OtherException string

text \<open>A response is a Python dict with string keys.\<close>

type_synonym response = "string \<rightharpoonup> pyval"

definition xen_api_success :: "pyval \<Rightarrow> response" where
  "xen_api_success v = [''Status'' \<mapsto> Str ''Success'', ''Value'' \<mapsto> v]"

definition xen_api_success_void :: response where
  "xen_api_success_void = xen_api_success (Str '''')"

definition xen_api_error :: "pyval \<Rightarrow> response" where
  "xen_api_error e = [''Status'' \<mapsto> Str ''Error'', ''ErrorDescription'' \<mapsto> e]"

definition xen_api_todo :: response where
  "xen_api_todo = [''Status'' \<mapsto> Str ''Error'', ''ErrorDescription'' \<mapsto> ErrorCode XEND_ERROR_TODO]"

section \<open>Collaborators\<close>

text \<open>
  The node registry (\<^verbatim>\<open>XendNode.instance()\<close>), the domain registry
  (\<^verbatim>\<open>XendDomain.instance()\<close>) and the session manager (\<^verbatim>\<open>auth_manager()\<close>)
  live in other modules. What \<^verbatim>\<open>XendAPI.py\<close> asks of them is a parameter of the model.
  \<open>method_body\<close> stands for the bodies of the hand-written methods that are not
  transcribed below.
\<close>

record env =
  is_valid_host :: "string \<Rightarrow> bool"
  is_valid_cpu :: "string \<Rightarrow> bool"
  is_valid_vm :: "string \<Rightarrow> bool"
  is_valid_dev :: "string \<Rightarrow> string \<Rightarrow> bool"
  is_session_valid :: "pyval \<Rightarrow> bool"
  login_with_password :: "pyval \<Rightarrow> pyval \<Rightarrow> exn + pyval"
  get_host_cpu_uuid :: "pyval \<Rightarrow> exn + pyval"
  node_name :: pyval
  method_body :: "string \<Rightarrow> pyval list \<Rightarrow> exn + response"

section \<open>Function objects\<close>

text \<open>
  The inner function that a decorator returns: \<^verbatim>\<open>check_host_ref\<close> for
  \<^verbatim>\<open>valid_host\<close>, and so on; \<open>check_session\<close> for \<^verbatim>\<open>session_required\<close>.
\<close>

datatype check =
    check_session
  | check_host_ref
  | check_host_cpu_ref
  | check_vm_ref
  | check_vbd_ref
  | check_vif_ref

text \<open>
  A function object of the class namespace, with its \<^verbatim>\<open>api\<close> attribute (\<open>None\<close> when
  the object has no such attribute):
  \<^item> \<open>Def name\<close>: the method written as \<^verbatim>\<open>def name(self, ...)\<close> in the class body;
  \<^item> \<open>Lambda\<close>: \<^verbatim>\<open>lambda s, sess, obj_ref: xen_api_success(obj_ref)\<close>;
  \<^item> \<open>Closure c func\<close>: the inner function \<open>c\<close> of a decorator, closed over \<open>func\<close>.
\<close>

datatype func =
    Def string "string option"
  | Lambda "string option"
  | Closure check func "string option"

fun api :: "func \<Rightarrow> string option" where
  "api (Def name a) = a"
| "api (Lambda a) = a"
| "api (Closure c func a) = a"

fun set_api :: "func \<Rightarrow> string \<Rightarrow> func" where
  "set_api (Def name a) v = Def name (Some v)"
| "set_api (Lambda a) v = Lambda (Some v)"
| "set_api (Closure c func a) v = Closure c func (Some v)"

text \<open>
  The decorators. Each returns its inner function closed over \<open>func\<close>; the reference
  decorators copy the \<^verbatim>\<open>api\<close> attribute when \<open>func\<close> has one.
\<close>

definition valid_host :: "func \<Rightarrow> func" where
  "valid_host func = Closure check_host_ref func (api func)"

definition valid_host_cpu :: "func \<Rightarrow> func" where
  "valid_host_cpu func = Closure check_host_cpu_ref func (api func)"

definition valid_vm :: "func \<Rightarrow> func" where
  "valid_vm func = Closure check_vm_ref func (api func)"

definition valid_vbd :: "func \<Rightarrow> func" where
  "valid_vbd func = Closure check_vbd_ref func (api func)"

definition valid_vif :: "func \<Rightarrow> func" where
  "valid_vif func = Closure check_vif_ref func (api func)"

text \<open>
  Modelled from the spec: \<^verbatim>\<open>session_required\<close> is imported from
  \<^verbatim>\<open>xen.xend.XendAuthSessions\<close>, which is not among the sources. The spec describes it
  as a guard of the same shape as the reference guards, so it is a decorator returning an
  inner function closed over \<open>func\<close>; the spec says nothing of an \<^verbatim>\<open>api\<close> attribute,
  so none is set.
\<close>

definition session_required :: "func \<Rightarrow> func" where
  "session_required func = Closure check_session func None"

section \<open>Calling a function object\<close>

text \<open>
  A call yields the names of the handler functions (methods and the lambda) that were
  called, in order, and either the exception raised or the response returned. Arguments
  are the positional arguments after \<^verbatim>\<open>self\<close>; XML-RPC passes no keyword arguments.
\<close>

type_synonym outcome = "exn + response"
type_synonym result = "string list \<times> outcome"

text \<open>\<^verbatim>\<open>type(x) == type(str()) and p(x)\<close>\<close>

fun is_str_and :: "pyval \<Rightarrow> (string \<Rightarrow> bool) \<Rightarrow> bool" where
  "is_str_and (Str s) p = p s"
| "is_str_and v p = False"

definition failure :: "xend_error \<Rightarrow> response" where
  "failure e = [''Status'' \<mapsto> Str ''Failure'', ''ErrorDescription'' \<mapsto> ErrorCode e]"

text \<open>
  Modelled from the spec: \<open>check_session\<close>, the inner function of
  \<^verbatim>\<open>session_required\<close> (imported from \<^verbatim>\<open>xen.xend.XendAuthSessions\<close>, not among the
  sources). The session guard passes when the session manager knows the token as a valid
  session, then forwards all arguments unchanged; otherwise it short-circuits with the
  session-invalid code, in the envelope that guards answer with. It needs the session
  argument only, since it also guards class functions, which take no reference.
\<close>

fun run_check_session :: "env \<Rightarrow> (pyval list \<Rightarrow> result) \<Rightarrow> pyval list \<Rightarrow> result" where
  "run_check_session E func (session # args) =
     (if is_session_valid E session
      then func (session # args)
      else ([], Inr (failure XEND_ERROR_SESSION_INVALID)))"
| "run_check_session E func [] = ([], Inl TypeError)"

text \<open>
  The inner functions of the reference decorators, applied to the positional arguments,
  with the wrapped function's call as \<open>func\<close>. Too few arguments for the signature
  \<^verbatim>\<open>(self, session, ref, *args, **kwargs)\<close> is a \<^verbatim>\<open>TypeError\<close>.
\<close>

fun run_check :: "env \<Rightarrow> check \<Rightarrow> (pyval list \<Rightarrow> result) \<Rightarrow> pyval list \<Rightarrow> result" where
  "run_check E check_host_ref func (session # host_ref # args) =
     (if is_str_and host_ref (is_valid_host E)
      then func (session # host_ref # args)
      else ([], Inr (failure XEND_ERROR_HOST_INVALID)))"
| "run_check E check_host_cpu_ref func (session # host_cpu_ref # args) =
     (if is_str_and host_cpu_ref (is_valid_cpu E)
      then func (session # host_cpu_ref # args)
      else ([], Inr (failure XEND_ERROR_HOST_CPU_INVALID)))"
| "run_check E check_vm_ref func (session # vm_ref # args) =
     (if is_str_and vm_ref (is_valid_vm E)
      then func (session # vm_ref # args)
      else ([], Inr (failure XEND_ERROR_VM_INVALID)))"
| "run_check E check_vbd_ref func (session # vbd_ref # args) =
     (if is_str_and vbd_ref (is_valid_dev E ''vbd'')
      then func (session # vbd_ref # args)
      else ([], Inr (failure XEND_ERROR_VBD_INVALID)))"
| "run_check E check_vif_ref func (session # vif_ref # args) =
     (if is_str_and vif_ref (is_valid_dev E ''vif'')
      then func (session # vif_ref # args)
      else ([], Inr (failure XEND_ERROR_VIF_INVALID)))"
| "run_check E check_session func args = run_check_session E func args"
| "run_check E c func args = ([], Inl TypeError)"

text \<open>
  The hand-written methods of the class whose bodies are transcribed. The body of any
  other method is \<open>method_body\<close> of the environment.
\<close>

definition session_login_with_password :: "env \<Rightarrow> pyval list \<Rightarrow> outcome" where
  "session_login_with_password E args =
     (case args of
        [username, password] \<Rightarrow>
          (case login_with_password E username password of
             Inr session \<Rightarrow> Inr (xen_api_success session)
           | Inl XendError \<Rightarrow> Inr (xen_api_error (ErrorCode XEND_ERROR_AUTHENTICATION_FAILED))
           | Inl e \<Rightarrow> Inl e)
      | _ \<Rightarrow> Inl TypeError)"

definition host_get_name_label :: "env \<Rightarrow> pyval list \<Rightarrow> outcome" where
  "host_get_name_label E args =
     (case args of
        [session, host_ref] \<Rightarrow> Inr (xen_api_success (node_name E))
      | _ \<Rightarrow> Inl TypeError)"

definition host_cpu_get_uuid :: "env \<Rightarrow> pyval list \<Rightarrow> outcome" where
  "host_cpu_get_uuid E args =
     (case args of
        [session, host_cpu_ref] \<Rightarrow>
          (case get_host_cpu_uuid E host_cpu_ref of
             Inl e \<Rightarrow> Inl e
           | Inr uuid \<Rightarrow> Inr (xen_api_success uuid))
      | _ \<Rightarrow> Inl TypeError)"

definition XendAPI_method :: "env \<Rightarrow> string \<Rightarrow> pyval list \<Rightarrow> outcome" where
  "XendAPI_method E name args =
     (if name = ''session_login_with_password'' then session_login_with_password E args
      else if name = ''host_get_name_label'' then host_get_name_label E args
      else if name = ''host_cpu_get_uuid'' then host_cpu_get_uuid E args
      else method_body E name args)"

primrec call :: "env \<Rightarrow> func \<Rightarrow> pyval list \<Rightarrow> result" where
  "call E (Def name a) = (\<lambda>args. ([name], XendAPI_method E name args))"
| "call E (Lambda a) =
     (\<lambda>args. (case args of
                [sess, obj_ref] \<Rightarrow> ([''<lambda>''], Inr (xen_api_success obj_ref))
              | _ \<Rightarrow> ([''<lambda>''], Inl TypeError)))"
| "call E (Closure c func a) = run_check E c (call E func)"

section \<open>The class \<^verbatim>\<open>XendAPI\<close>\<close>

subsection \<open>Declarations of the class body\<close>

definition Base_attr_ro :: "string list" where
  "Base_attr_ro =
     [''uuid'']"

definition Base_attr_rw :: "string list" where
  "Base_attr_rw =
     []"

definition Base_methods :: "string list" where
  "Base_methods =
     [''destroy'', ''to_XML'', ''get_record'']"

definition Base_funcs :: "string list" where
  "Base_funcs =
     [''create'', ''get_by_uuid'', ''get_all'']"

definition Session_attr_ro :: "string list" where
  "Session_attr_ro =
     [''this_host'', ''this_user'']"

definition Session_methods :: "string list" where
  "Session_methods =
     [''logout'']"

definition Host_attr_ro :: "string list" where
  "Host_attr_ro =
     [''software_version'', ''resident_VMs'', ''host_CPUs'']"

definition Host_attr_rw :: "string list" where
  "Host_attr_rw =
     [''name_label'', ''name_description'']"

definition Host_methods :: "string list" where
  "Host_methods =
     [''disable'', ''enable'', ''reboot'', ''shutdown'']"

definition Host_funcs :: "string list" where
  "Host_funcs =
     [''get_by_label'']"

definition Host_CPU_attr_ro :: "string list" where
  "Host_CPU_attr_ro =
     [''host'', ''number'', ''features'', ''utilisation'']"

definition Network_attr_ro :: "string list" where
  "Network_attr_ro =
     [''VIFs'']"

definition Network_attr_rw :: "string list" where
  "Network_attr_rw =
     [''name_label'', ''name_description'', ''NIC'', ''VLAN'', ''default_gateway'',
      ''default_netmask'']"

definition VM_attr_ro :: "string list" where
  "VM_attr_ro =
     [''power_state'', ''resident_on'', ''memory_actual'', ''memory_static_max'',
      ''memory_static_min'', ''VCPUs_number'', ''VCPUs_utilisation'',
      ''VCPUs_features_required'', ''VCPUs_can_use'', ''VIFs'', ''VBDs'',
      ''TPM_instance'', ''TPM_backend'', ''PCI_bus'', ''tools_version'']"

definition VM_attr_rw :: "string list" where
  "VM_attr_rw =
     [''name_label'', ''name_description'', ''user_version'', ''is_a_template'',
      ''memory_dynamic_max'', ''memory_dynamic_min'', ''VCPUs_policy'',
      ''VCPUs_params'', ''VCPUs_features_force_on'', ''VCPUS_features_force_off'',
      ''actions_after_shutdown'', ''actions_after_reboot'',
      ''actions_after_suspend'', ''actions_after_crash'', ''bios_boot'',
      ''platform_std_VGA'', ''platform_serial'', ''platform_localtime'',
      ''platform_clock_offset'', ''platform_enable_audio'', ''builder'',
      ''boot_method'', ''kernel_kernel'', ''kernel_initrd'', ''kernel_args'',
      ''grub_cmdline'', ''other_config'']"

definition VM_methods :: "string list" where
  "VM_methods =
     [''clone'', ''start'', ''pause'', ''unpause'', ''clean_shutdown'',
      ''clean_reboot'', ''hard_shutdown'', ''hard_reboot'', ''suspend'', ''resume'']"

definition VM_funcs :: "string list" where
  "VM_funcs =
     [''get_by_label'']"

definition VM_attr_inst :: "string list" where
  "VM_attr_inst =
     [''name_label'', ''name_description'', ''user_version'', ''is_a_template'',
      ''memory_static_max'', ''memory_dynamic_max'', ''memory_dynamic_min'',
      ''memory_static_min'', ''VCPUs_policy'', ''VCPUs_params'',
      ''VCPUs_features_required'', ''VCPUs_features_can_use'',
      ''VCPUs_features_force_on'', ''VCPUs_features_force_off'',
      ''actions_after_shutdown'', ''actions_after_reboot'',
      ''actions_after_suspend'', ''actions_after_crash'', ''TPM_instance'',
      ''TPM_backend'', ''bios_boot'', ''platform_std_VGA'', ''platform_serial'',
      ''platform_localtime'', ''platform_clock_offset'', ''platform_enable_audio'',
      ''builder'', ''boot_method'', ''kernel_kernel'', ''kernel_initrd'',
      ''kernel_args'', ''grub_cmdline'', ''PCI_bus'', ''other_config'']"

definition VBD_attr_ro :: "string list" where
  "VBD_attr_ro =
     [''image'', ''IO_bandwidth_incoming_kbs'', ''IO_bandwidth_outgoing_kbs'']"

definition VBD_attr_rw :: "string list" where
  "VBD_attr_rw =
     [''VM'', ''VDI'', ''device'', ''mode'', ''driver'']"

definition VIF_attr_ro :: "string list" where
  "VIF_attr_ro =
     [''network_read_kbs'', ''network_write_kbs'', ''IO_bandwidth_incoming_kbs'',
      ''IO_bandwidth_outgoing_kbs'']"

definition VIF_attr_rw :: "string list" where
  "VIF_attr_rw =
     [''name'', ''type'', ''device'', ''network'', ''VM'', ''MAC'', ''MTU'']"

definition VBD_attr_inst :: "string list" where
  "VBD_attr_inst = VBD_attr_rw @ [''image'']"

definition VIF_attr_inst :: "string list" where
  "VIF_attr_inst = VIF_attr_rw"

text \<open>The list-valued attributes of the class, by name.\<close>

definition XendAPI_lists :: "string \<rightharpoonup> string list" where
  "XendAPI_lists = map_of
     [(''Base_attr_ro'', Base_attr_ro), (''Base_attr_rw'', Base_attr_rw),
      (''Base_methods'', Base_methods), (''Base_funcs'', Base_funcs),
      (''Session_attr_ro'', Session_attr_ro), (''Session_methods'', Session_methods),
      (''Host_attr_ro'', Host_attr_ro), (''Host_attr_rw'', Host_attr_rw),
      (''Host_methods'', Host_methods), (''Host_funcs'', Host_funcs),
      (''Host_CPU_attr_ro'', Host_CPU_attr_ro),
      (''Network_attr_ro'', Network_attr_ro), (''Network_attr_rw'', Network_attr_rw),
      (''VM_attr_ro'', VM_attr_ro), (''VM_attr_rw'', VM_attr_rw),
      (''VM_methods'', VM_methods), (''VM_funcs'', VM_funcs),
      (''VM_attr_inst'', VM_attr_inst),
      (''VBD_attr_ro'', VBD_attr_ro), (''VBD_attr_rw'', VBD_attr_rw),
      (''VBD_attr_inst'', VBD_attr_inst),
      (''VIF_attr_ro'', VIF_attr_ro), (''VIF_attr_rw'', VIF_attr_rw),
      (''VIF_attr_inst'', VIF_attr_inst)]"

text \<open>\<^verbatim>\<open>getattr(self, name, [])\<close> for a list-valued attribute.\<close>

definition getattr_list :: "string \<Rightarrow> string list" where
  "getattr_list name = (case XendAPI_lists name of None \<Rightarrow> [] | Some xs \<Rightarrow> xs)"

text \<open>The methods that the class body defines with \<^verbatim>\<open>def\<close>, in source order.\<close>

definition XendAPI_defs :: "string list" where
  "XendAPI_defs =
     [''__init__'',
      ''session_login_with_password'', ''session_logout'', ''session_destroy'',
      ''session_get_record'', ''session_to_xml'', ''session_get_this_host'',
      ''session_get_this_user'', ''host_get_name_label'', ''host_set_name_label'',
      ''host_get_name_description'', ''host_set_name_description'',
      ''host_get_software_version'', ''host_get_resident_vms'',
      ''host_get_host_cpus'', ''host_destroy'', ''host_disable'', ''host_enable'',
      ''host_reboot'', ''host_shutdown'', ''host_get_record'', ''host_get_all'',
      ''host_create'', ''host_cpu_get_uuid'', ''host_cpu_get_host'',
      ''host_cpu_get_features'', ''host_cpu_get_utilisation'',
      ''host_cpu_get_number'', ''host_cpu_destroy'', ''host_cpu_get_record'',
      ''host_cpu_to_xml'', ''host_cpu_get_all'', ''host_cpu_create'',
      ''vm_get_power_state'', ''vm_get_resident_on'', ''vm_get_memory_actual'',
      ''vm_get_memory_static_max'', ''vm_get_memory_static_min'',
      ''vm_get_vcpus_number'', ''vm_get_vcpus_utilisation'',
      ''vm_get_vcpus_features_required'', ''vm_get_vcpus_can_use'', ''vm_get_vifs'',
      ''vm_get_vbds'', ''vm_get_tpm_instance'', ''vm_get_tpm_backend'',
      ''vm_get_pci_bus'', ''vm_get_tools_version'', ''vm_get_name_label'',
      ''vm_get_name_description'', ''vm_get_user_version'', ''vm_get_is_a_template'',
      ''vm_get_memory_dynamic_max'', ''vm_get_memory_dynamic_min'',
      ''vm_get_vcpus_policy'', ''vm_get_vcpus_params'',
      ''vm_get_vcpus_features_force_on'', ''vm_get_vcpus_features_force_off'',
      ''vm_get_actions_after_shutdown'', ''vm_get_actions_after_reboot'',
      ''vm_get_actions_after_suspend'', ''vm_get_actions_after_crash'',
      ''vm_get_bios_boot'', ''vm_get_platform_std_vga'', ''vm_get_platform_serial'',
      ''vm_get_platform_localtime'', ''vm_get_platform_clock_offset'',
      ''vm_get_platform_enable_audio'', ''vm_get_builder'', ''vm_get_boot_method'',
      ''vm_get_kernel_kernel'', ''vm_get_kernel_initrd'', ''vm_get_kernel_args'',
      ''vm_get_grub_cmdline'', ''vm_get_other_config'', ''vm_set_name_label'',
      ''vm_set_name_description'', ''vm_set_user_version'', ''vm_set_is_a_template'',
      ''vm_set_memory_dynamic_max'', ''vm_set_memory_dynamic_min'',
      ''vm_set_vcpus_policy'', ''vm_set_vcpus_params'',
      ''vm_set_vcpus_features_force_on'', ''vm_set_vcpus_features_force_off'',
      ''vm_set_actions_after_shutdown'', ''vm_set_actions_after_reboot'',
      ''vm_set_actions_after_suspend'', ''vm_set_actions_after_crash'',
      ''vm_set_bios_boot'', ''vm_set_platform_std_vga'', ''vm_set_platform_serial'',
      ''vm_set_platform_localtime'', ''vm_set_platform_clock_offset'',
      ''vm_set_platform_enable_audio'', ''vm_set_builder'', ''vm_set_boot_method'',
      ''vm_set_kernel_kernel'', ''vm_set_kernel_initrd'', ''vm_set_kernel_args'',
      ''vm_set_grub_cmdline'', ''vm_set_other_config'', ''vm_get_all'',
      ''vm_get_by_label'', ''vm_create'', ''vm_to_xml'', ''vm_get_record'',
      ''vm_clean_reboot'', ''vm_clean_shutdown'', ''vm_clone'', ''vm_destroy'',
      ''vm_hard_reboot'', ''vm_hard_shutdown'', ''vm_pause'', ''vm_resume'',
      ''vm_start'', ''vm_suspend'', ''vm_unpause'', ''vbd_get_record'',
      ''vbd_create'', ''vbd_get_vm'', ''vbd_get_vdi'', ''vbd_get_device'',
      ''vbd_get_mode'', ''vbd_get_driver'', ''vif_create'']"

text \<open>
  The function-valued attributes of the class as the class statement leaves them. Only
  \<^verbatim>\<open>session_login_with_password\<close> is given an \<^verbatim>\<open>api\<close> attribute in the class body.
\<close>

definition XendAPI_class :: "string \<rightharpoonup> func" where
  "XendAPI_class =
     (map_of (map (\<lambda>name. (name, Def name None)) XendAPI_defs))
       (''session_login_with_password'' \<mapsto>
          Def ''session_login_with_password'' (Some ''Session.login_with_password''))"

subsection \<open>String helpers\<close>

text \<open>\<^verbatim>\<open>str.lower()\<close> on ASCII text.\<close>

definition lower_char :: "char \<Rightarrow> char" where
  "lower_char c =
     (let n = (of_char c :: nat) in if 65 \<le> n \<and> n \<le> 90 then char_of (n + 32) else c)"

definition lower :: "string \<Rightarrow> string" where
  "lower s = map lower_char s"

subsection \<open>The constructor\<close>

text \<open>
  The constructor changes the class object by \<^verbatim>\<open>setattr(XendAPI, ...)\<close> and writes
  warnings to the log. The state is the function-valued part of the class namespace
  and the warnings logged so far.
\<close>

record state =
  attrs :: "string \<rightharpoonup> func"
  log :: "string list"

text \<open>
  The local dict \<^verbatim>\<open>classes\<close>, as the list of its items in the order of the literal.
  Python iterates over the dict in an order of its own; \<open>init_items\<close> below takes the
  order as a parameter, and \<open>init_items_order\<close> shows that it changes neither the
  resulting attributes nor the set of warnings.
\<close>

definition classes :: "(string \<times> (func \<Rightarrow> func) list) list" where
  "classes =
     [(''Session'', [session_required]),
      (''Host'', [valid_host, session_required]),
      (''Host_CPU'', [valid_host_cpu, session_required]),
      (''VM'', [valid_vm, session_required]),
      (''VBD'', [valid_vbd, session_required]),
      (''VIF'', [valid_vif, session_required])]"

text \<open>\<^verbatim>\<open>getattr(XendAPI, name)\<close> raises \<^verbatim>\<open>AttributeError\<close> for a missing name.\<close>

definition getattr_XendAPI :: "state \<Rightarrow> string \<Rightarrow> exn + func" where
  "getattr_XendAPI st name =
     (case attrs st name of None \<Rightarrow> Inl (AttributeError name) | Some f \<Rightarrow> Inr f)"

definition setattr_XendAPI :: "string \<Rightarrow> func \<Rightarrow> state \<Rightarrow> state" where
  "setattr_XendAPI name f st = st\<lparr>attrs := (attrs st)(name \<mapsto> f)\<rparr>"

definition log_warn :: "string \<Rightarrow> state \<Rightarrow> state" where
  "log_warn msg st = st\<lparr>log := log st @ [msg]\<rparr>"

text \<open>
  \<^verbatim>\<open>try: ... except AttributeError: ...\<close>: the handler runs on the state as it was
  when the exception was raised; any other exception propagates.
\<close>

definition except_AttributeError :: "exn + state \<Rightarrow> state \<Rightarrow> (state \<Rightarrow> state) \<Rightarrow> exn + state" where
  "except_AttributeError r st handler =
     (case r of
        Inr st' \<Rightarrow> Inr st'
      | Inl (AttributeError n) \<Rightarrow> Inr (handler st)
      | Inl e \<Rightarrow> Inl e)"

text \<open>A \<^verbatim>\<open>for\<close> loop whose body may raise.\<close>

fun for_each :: "'a list \<Rightarrow> ('a \<Rightarrow> state \<Rightarrow> exn + state) \<Rightarrow> state \<Rightarrow> exn + state" where
  "for_each [] body st = Inr st"
| "for_each (x # xs) body st =
     (case body x st of Inl e \<Rightarrow> Inl e | Inr st' \<Rightarrow> for_each xs body st')"

text \<open>\<^verbatim>\<open>for validator in validators: f = validator(f)\<close>\<close>

definition apply_validators :: "(func \<Rightarrow> func) list \<Rightarrow> func \<Rightarrow> func" where
  "apply_validators validators f = fold (\<lambda>validator f. validator f) validators f"

text \<open>
  The four \<^verbatim>\<open>try\<close> blocks of the wrapping loops. Every guard chain in \<open>classes\<close> is
  non-empty, so the object whose \<^verbatim>\<open>api\<close> attribute is assigned is always the inner
  function of a decorator.
\<close>

definition wrap_getter :: "string \<Rightarrow> (func \<Rightarrow> func) list \<Rightarrow> string \<Rightarrow> state \<Rightarrow> exn + state" where
  "wrap_getter cls validators attr_name st =
     (let getter_name = lower cls @ ''_get_'' @ lower attr_name in
      except_AttributeError
        (case getattr_XendAPI st getter_name of
           Inl e \<Rightarrow> Inl e
         | Inr getter \<Rightarrow>
             (let getter = apply_validators validators getter;
                  getter = set_api getter (cls @ ''.get_'' @ attr_name)
              in Inr (setattr_XendAPI getter_name getter st)))
        st (log_warn (''API call: '' @ getter_name @ '' not found'')))"

definition wrap_setter :: "string \<Rightarrow> (func \<Rightarrow> func) list \<Rightarrow> string \<Rightarrow> state \<Rightarrow> exn + state" where
  "wrap_setter cls validators attr_name st =
     (let setter_name = lower cls @ ''_set_'' @ lower attr_name in
      except_AttributeError
        (case getattr_XendAPI st setter_name of
           Inl e \<Rightarrow> Inl e
         | Inr setter \<Rightarrow>
             (let setter = apply_validators validators setter;
                  setter = set_api setter (cls @ ''.set_'' @ attr_name)
              in Inr (setattr_XendAPI setter_name setter st)))
        st (log_warn (''API call: '' @ setter_name @ '' not found'')))"

definition wrap_method :: "string \<Rightarrow> (func \<Rightarrow> func) list \<Rightarrow> string \<Rightarrow> state \<Rightarrow> exn + state" where
  "wrap_method cls validators method_name st =
     (let method_full_name = lower cls @ ''_'' @ lower method_name in
      except_AttributeError
        (case getattr_XendAPI st method_full_name of
           Inl e \<Rightarrow> Inl e
         | Inr method \<Rightarrow>
             (let method = apply_validators validators method;
                  method = set_api method (cls @ ''.'' @ method_name)
              in Inr (setattr_XendAPI method_full_name method st)))
        st (log_warn (''API call: '' @ method_full_name @ '' not found'')))"

definition wrap_func :: "string \<Rightarrow> string \<Rightarrow> state \<Rightarrow> exn + state" where
  "wrap_func cls func_name st =
     (let func_full_name = lower cls @ ''_'' @ lower func_name in
      except_AttributeError
        (case getattr_XendAPI st func_full_name of
           Inl e \<Rightarrow> Inl e
         | Inr method \<Rightarrow>
             (let method = session_required method;
                  method = set_api method (cls @ ''.'' @ func_name)
              in Inr (setattr_XendAPI func_full_name method st)))
        st (log_warn (''API call: '' @ func_full_name @ '' not found'')))"

text \<open>The body of the first loop: the two trivial methods of a class.\<close>

definition cheat_methods :: "string \<Rightarrow> state \<Rightarrow> exn + state" where
  "cheat_methods cls st =
     (let get_by_uuid = lower cls @ ''_get_by_uuid'';
          get_uuid = lower cls @ ''_get_uuid''
      in Inr (setattr_XendAPI get_uuid (Lambda None)
               (setattr_XendAPI get_by_uuid (Lambda None) st)))"

text \<open>The body of the second loop, for one item of \<open>classes\<close>.\<close>

definition wrap_class :: "string \<times> (func \<Rightarrow> func) list \<Rightarrow> state \<Rightarrow> exn + state" where
  "wrap_class item st =
     (case item of (cls, validators) \<Rightarrow>
        (let ro_attrs = getattr_list (cls @ ''_attr_ro'');
             rw_attrs = getattr_list (cls @ ''_attr_rw'');
             methods = getattr_list (cls @ ''_methods'');
             funcs = getattr_list (cls @ ''_funcs'')
         in case for_each (ro_attrs @ rw_attrs @ Base_attr_ro) (wrap_getter cls validators) st of
              Inl e \<Rightarrow> Inl e
            | Inr st \<Rightarrow>
         (case for_each (rw_attrs @ Base_attr_rw) (wrap_setter cls validators) st of
              Inl e \<Rightarrow> Inl e
            | Inr st \<Rightarrow>
         (case for_each (methods @ Base_methods) (wrap_method cls validators) st of
              Inl e \<Rightarrow> Inl e
            | Inr st \<Rightarrow> for_each (funcs @ Base_funcs) (wrap_func cls) st))))"

text \<open>
  \<^verbatim>\<open>XendAPI.__init__\<close>, for a given order of the items of \<open>classes\<close>: the loop that
  installs the trivial methods, then the loop that wraps the validators.
\<close>

definition install_cheats :: "(string \<times> (func \<Rightarrow> func) list) list \<Rightarrow> state \<Rightarrow> exn + state" where
  "install_cheats items st = for_each (map fst items) cheat_methods st"

definition wrap_classes :: "(string \<times> (func \<Rightarrow> func) list) list \<Rightarrow> state \<Rightarrow> exn + state" where
  "wrap_classes items st = for_each items wrap_class st"

definition init_items :: "(string \<times> (func \<Rightarrow> func) list) list \<Rightarrow> state \<Rightarrow> exn + state" where
  "init_items items st =
     (case install_cheats items st of
        Inl e \<Rightarrow> Inl e
      | Inr st \<Rightarrow> wrap_classes items st)"

definition init :: "state \<Rightarrow> exn + state" where
  "init st = init_items classes st"

text \<open>The state before the first instance is constructed.\<close>

definition XendAPI_initial :: state where
  "XendAPI_initial = \<lparr>attrs = XendAPI_class, log = []\<rparr>"

text \<open>Looking a handler up in the class and calling it.\<close>

definition call_attr :: "env \<Rightarrow> state \<Rightarrow> string \<Rightarrow> pyval list \<Rightarrow> result" where
  "call_attr E st name args =
     (case getattr_XendAPI st name of
        Inl e \<Rightarrow> ([], Inl e)
      | Inr f \<Rightarrow> call E f args)"

section \<open>Notions used in the statements and proofs\<close>

text \<open>The checks wrapped around a function object, outermost first.\<close>

fun checks :: "func \<Rightarrow> check list" where
  "checks (Closure c func a) = c # checks func"
| "checks f = []"

text \<open>The ranges of the four wrapping loops for a class.\<close>

definition getter_attrs :: "string \<Rightarrow> string list" where
  "getter_attrs cls =
     getattr_list (cls @ ''_attr_ro'') @ getattr_list (cls @ ''_attr_rw'') @ Base_attr_ro"

definition setter_attrs :: "string \<Rightarrow> string list" where
  "setter_attrs cls = getattr_list (cls @ ''_attr_rw'') @ Base_attr_rw"

definition method_names :: "string \<Rightarrow> string list" where
  "method_names cls = getattr_list (cls @ ''_methods'') @ Base_methods"

definition func_names :: "string \<Rightarrow> string list" where
  "func_names cls = getattr_list (cls @ ''_funcs'') @ Base_funcs"

text \<open>The names that the first loop installs.\<close>

definition cheat_names :: "string list" where
  "cheat_names =
     concat (map (\<lambda>cls. [lower cls @ ''_get_by_uuid'', lower cls @ ''_get_uuid'']) (map fst classes))"

text \<open>The warning logged for a name that does not resolve.\<close>

definition not_found :: "string \<Rightarrow> string" where
  "not_found name = ''API call: '' @ name @ '' not found''"

text \<open>
  One pass through a \<^verbatim>\<open>try\<close> block, as an operation on the state: the attribute name,
  the decoration applied to the function found there, and the \<^verbatim>\<open>api\<close> tag.
\<close>

type_synonym op = "string \<times> (func \<Rightarrow> func) \<times> string"

definition install :: "op \<Rightarrow> state \<Rightarrow> state" where
  "install op st =
     (case op of (name, deco, tag) \<Rightarrow>
        (case attrs st name of
           None \<Rightarrow> log_warn (not_found name) st
         | Some f \<Rightarrow> setattr_XendAPI name (set_api (deco f) tag) st))"

definition getter_op :: "string \<Rightarrow> (func \<Rightarrow> func) list \<Rightarrow> string \<Rightarrow> op" where
  "getter_op cls validators attr_name =
     (lower cls @ ''_get_'' @ lower attr_name, apply_validators validators,
      cls @ ''.get_'' @ attr_name)"

definition setter_op :: "string \<Rightarrow> (func \<Rightarrow> func) list \<Rightarrow> string \<Rightarrow> op" where
  "setter_op cls validators attr_name =
     (lower cls @ ''_set_'' @ lower attr_name, apply_validators validators,
      cls @ ''.set_'' @ attr_name)"

definition method_op :: "string \<Rightarrow> (func \<Rightarrow> func) list \<Rightarrow> string \<Rightarrow> op" where
  "method_op cls validators method_name =
     (lower cls @ ''_'' @ lower method_name, apply_validators validators,
      cls @ ''.'' @ method_name)"

definition func_op :: "string \<Rightarrow> string \<Rightarrow> op" where
  "func_op cls func_name =
     (lower cls @ ''_'' @ lower func_name, session_required, cls @ ''.'' @ func_name)"

definition class_ops :: "string \<times> (func \<Rightarrow> func) list \<Rightarrow> op list" where
  "class_ops item =
     (case item of (cls, validators) \<Rightarrow>
        map (getter_op cls validators) (getter_attrs cls)
        @ map (setter_op cls validators) (setter_attrs cls)
        @ map (method_op cls validators) (method_names cls)
        @ map (func_op cls) (func_names cls))"

definition all_ops :: "op list" where
  "all_ops = concat (map class_ops classes)"

definition cheat :: "string \<Rightarrow> state \<Rightarrow> state" where
  "cheat cls st =
     setattr_XendAPI (lower cls @ ''_get_uuid'') (Lambda None)
       (setattr_XendAPI (lower cls @ ''_get_by_uuid'') (Lambda None) st)"

text \<open>Handler names of a class without the class prefix.\<close>

definition local_names :: "string \<Rightarrow> string list" where
  "local_names cls =
     map ((@) ''get_'') (map lower (getter_attrs cls))
     @ map ((@) ''set_'') (map lower (setter_attrs cls))
     @ map lower (method_names cls @ func_names cls)"

text \<open>
  What the constructor does with one declared operation, given the state \<open>st1\<close> at the
  start of the wrapping loops and the final state \<open>st'\<close>: a name that does not resolve
  stays absent and its warning is logged; a name that resolves to \<open>f\<close> is bound to the
  decorated and tagged \<open>f\<close>.
\<close>

definition skipped_or_registered :: "state \<Rightarrow> state \<Rightarrow> op \<Rightarrow> bool" where
  "skipped_or_registered st1 st' op =
     (case op of (name, deco, tag) \<Rightarrow>
        (case attrs st1 name of
           None \<Rightarrow> attrs st' name = None \<and> ''API call: '' @ name @ '' not found'' \<in> set (log st')
         | Some f \<Rightarrow> attrs st' name = Some (set_api (deco f) tag)))"

text \<open>The class after one instance has been constructed, and after a second one.\<close>

definition constructed :: state where
  "constructed = (case init XendAPI_initial of Inr st \<Rightarrow> st | Inl e \<Rightarrow> XendAPI_initial)"

definition constructed_twice :: state where
  "constructed_twice = (case init constructed of Inr st \<Rightarrow> st | Inl e \<Rightarrow> constructed)"

text \<open>
  What two constructions in a row do with one declared operation, given the state \<open>st1\<close>
  after the first and \<open>st2\<close> after the second: a name that did not resolve stays absent;
  otherwise the attribute \<open>g1\<close> left by the first construction carries the checks of the
  decoration exactly once, and the second construction binds the name to the decorated
  and tagged \<open>g1\<close>, except for the names that the first loop installs afresh, which
  end as they were.
\<close>

definition rewrapped :: "state \<Rightarrow> state \<Rightarrow> op \<Rightarrow> bool" where
  "rewrapped st1 st2 op =
     (case op of (name, deco, tag) \<Rightarrow>
        (case attrs st1 name of
           None \<Rightarrow> attrs st2 name = None
         | Some g1 \<Rightarrow>
             checks g1 = checks (deco (Lambda None))
             \<and> attrs st2 name =
                 Some (if name \<in> set cheat_names then g1 else set_api (deco g1) tag)))"

text \<open>
  What the constructor leaves under the name of a declared attribute or method, given the
  state \<open>st1\<close> at the start of the wrapping loops and the final state \<open>st'\<close>: the handler
  \<open>f\<close> found there with the validators applied in the order of the tuple. When the tuple
  ends with \<open>B\<close>, the installed function is \<open>B\<close> applied to the rest of the chain, and
  whatever \<open>B\<close> answers by itself is the answer of a call of the attribute.
\<close>

definition folded_in_order :: "state \<Rightarrow> state \<Rightarrow> string \<Rightarrow> (func \<Rightarrow> func) list \<Rightarrow> string \<Rightarrow> bool" where
  "folded_in_order st1 st' name validators tag =
     (\<forall>f. attrs st1 name = Some f \<longrightarrow>
        attrs st' name = Some (set_api (apply_validators validators f) tag)
        \<and> (\<forall>vs B. validators = vs @ [B] \<longrightarrow>
              attrs st' name = Some (set_api (B (apply_validators vs f)) tag)
              \<and> (\<forall>E args answer.
                    (\<forall>g. call E (B g) args = answer) \<longrightarrow>
                    call_attr E st' name args = answer)))"

text \<open>
  The same for an operation of Host, with the chain \<^verbatim>\<open>(valid_host, session_required)\<close>
  written out: the session check is the outermost function, the host check is inside it,
  and a call whose session and host reference are both invalid gets the session-invalid
  envelope.
\<close>

definition host_guarded :: "state \<Rightarrow> state \<Rightarrow> string \<Rightarrow> string \<Rightarrow> bool" where
  "host_guarded st1 st' name tag =
     (\<forall>f. attrs st1 name = Some f \<longrightarrow>
        attrs st' name = Some (Closure check_session (Closure check_host_ref f (api f)) (Some tag))
        \<and> (\<forall>E session host_ref rest.
              \<not> is_session_valid E session \<and> \<not> is_str_and host_ref (is_valid_host E) \<longrightarrow>
              call_attr E st' name (session # host_ref # rest) =
                ([], Inr (failure XEND_ERROR_SESSION_INVALID))))"

text \<open>An environment in which no session and no reference is valid.\<close>

definition deny_all :: env where
  "deny_all =
     \<lparr>is_valid_host = (\<lambda>r. False), is_valid_cpu = (\<lambda>r. False), is_valid_vm = (\<lambda>r. False),
      is_valid_dev = (\<lambda>kind r. False), is_session_valid = (\<lambda>s. False),
      login_with_password = (\<lambda>u p. Inl XendError), get_host_cpu_uuid = (\<lambda>r. Inl XendError),
      node_name = Str ''node'', method_body = (\<lambda>name args. Inl TypeError)\<rparr>"

text \<open>An environment in which every session and every reference is valid.\<close>

definition allow_all :: env where
  "allow_all =
     \<lparr>is_valid_host = (\<lambda>r. True), is_valid_cpu = (\<lambda>r. True), is_valid_vm = (\<lambda>r. True),
      is_valid_dev = (\<lambda>kind r. True), is_session_valid = (\<lambda>s. True),
      login_with_password = (\<lambda>u p. Inr (Str ''token'')),
      get_host_cpu_uuid = (\<lambda>r. Inr (Str ''uuid-of-cpu'')),
      node_name = Str ''node'', method_body = (\<lambda>name args. Inl TypeError)\<rparr>"

section \<open>Evaluating names\<close>

lemma lower_char_Char:
  "lower_char (Char b0 b1 b2 b3 b4 b5 b6 b7) =
     (if \<not> b7 \<and> b6 \<and> \<not> b5 \<and> (b0 \<or> b1 \<or> b2 \<or> b3 \<or> b4) \<and> \<not> (b4 \<and> b3 \<and> (b2 \<or> (b1 \<and> b0)))
      then Char b0 b1 b2 b3 b4 True b6 b7 else Char b0 b1 b2 b3 b4 b5 b6 b7)"
  by (cases b0; cases b1; cases b2; cases b3; cases b4; cases b5; cases b6; cases b7;
      simp; code_simp)

lemma lower_Nil: "lower [] = []"
  by (simp add: lower_def)

lemma lower_Cons: "lower (c # s) = lower_char c # lower s"
  by (simp add: lower_def)

lemmas lower_simps = lower_Nil lower_Cons lower_char_Char

lemmas decl_defs = Base_attr_ro_def Base_attr_rw_def Base_methods_def Base_funcs_def
  Session_attr_ro_def Session_methods_def Host_attr_ro_def Host_attr_rw_def Host_methods_def
  Host_funcs_def Host_CPU_attr_ro_def Network_attr_ro_def Network_attr_rw_def VM_attr_ro_def
  VM_attr_rw_def VM_methods_def VM_funcs_def VM_attr_inst_def VBD_attr_ro_def VBD_attr_rw_def
  VBD_attr_inst_def VIF_attr_ro_def VIF_attr_rw_def VIF_attr_inst_def

lemma getattr_list_classes:
  "getattr_list ''Session_attr_ro'' = Session_attr_ro"
  "getattr_list ''Session_attr_rw'' = []"
  "getattr_list ''Session_methods'' = Session_methods"
  "getattr_list ''Session_funcs'' = []"
  "getattr_list ''Host_attr_ro'' = Host_attr_ro"
  "getattr_list ''Host_attr_rw'' = Host_attr_rw"
  "getattr_list ''Host_methods'' = Host_methods"
  "getattr_list ''Host_funcs'' = Host_funcs"
  "getattr_list ''Host_CPU_attr_ro'' = Host_CPU_attr_ro"
  "getattr_list ''Host_CPU_attr_rw'' = []"
  "getattr_list ''Host_CPU_methods'' = []"
  "getattr_list ''Host_CPU_funcs'' = []"
  "getattr_list ''VM_attr_ro'' = VM_attr_ro"
  "getattr_list ''VM_attr_rw'' = VM_attr_rw"
  "getattr_list ''VM_methods'' = VM_methods"
  "getattr_list ''VM_funcs'' = VM_funcs"
  "getattr_list ''VBD_attr_ro'' = VBD_attr_ro"
  "getattr_list ''VBD_attr_rw'' = VBD_attr_rw"
  "getattr_list ''VBD_methods'' = []"
  "getattr_list ''VBD_funcs'' = []"
  "getattr_list ''VIF_attr_ro'' = VIF_attr_ro"
  "getattr_list ''VIF_attr_rw'' = VIF_attr_rw"
  "getattr_list ''VIF_methods'' = []"
  "getattr_list ''VIF_funcs'' = []"
  by (simp_all add: getattr_list_def XendAPI_lists_def)

lemmas eval_names = getter_attrs_def setter_attrs_def method_names_def func_names_def
  getattr_list_classes decl_defs lower_simps

section \<open>The constructor as a sequence of installations\<close>

lemma for_each_pure:
  "(\<And>x st. body x st = Inr (g x st)) \<Longrightarrow> for_each xs body st = Inr (fold g xs st)"
  by (induction xs arbitrary: st) simp_all

lemma try_install:
  "except_AttributeError
     (case getattr_XendAPI st name of
        Inl e \<Rightarrow> Inl e
      | Inr f \<Rightarrow> Inr (setattr_XendAPI name (set_api (deco f) tag) st))
     st (log_warn (''API call: '' @ name @ '' not found''))
   = Inr (install (name, deco, tag) st)"
  by (simp add: except_AttributeError_def getattr_XendAPI_def install_def not_found_def
      split: option.splits)

lemma wrap_getter_install:
  "wrap_getter cls validators attr_name st = Inr (install (getter_op cls validators attr_name) st)"
  unfolding wrap_getter_def getter_op_def Let_def by (rule try_install)

lemma wrap_setter_install:
  "wrap_setter cls validators attr_name st = Inr (install (setter_op cls validators attr_name) st)"
  unfolding wrap_setter_def setter_op_def Let_def by (rule try_install)

lemma wrap_method_install:
  "wrap_method cls validators method_name st =
     Inr (install (method_op cls validators method_name) st)"
  unfolding wrap_method_def method_op_def Let_def by (rule try_install)

lemma wrap_func_install:
  "wrap_func cls func_name st = Inr (install (func_op cls func_name) st)"
  unfolding wrap_func_def func_op_def Let_def by (rule try_install)

lemma for_each_install:
  "(\<And>x st. body x st = Inr (install (f x) st)) \<Longrightarrow>
   for_each xs body st = Inr (fold install (map f xs) st)"
  by (induction xs arbitrary: st) simp_all

lemma wrap_class_install: "wrap_class item st = Inr (fold install (class_ops item) st)"
  by (cases item)
     (simp add: wrap_class_def class_ops_def Let_def
        getter_attrs_def setter_attrs_def method_names_def func_names_def
        for_each_install [where f = "getter_op _ _", OF wrap_getter_install]
        for_each_install [where f = "setter_op _ _", OF wrap_setter_install]
        for_each_install [where f = "method_op _ _", OF wrap_method_install]
        for_each_install [where f = "func_op _", OF wrap_func_install])

lemma cheat_methods_cheat: "cheat_methods cls st = Inr (cheat cls st)"
  by (simp add: cheat_methods_def cheat_def Let_def)

lemma fold_concat_map: "fold f (concat (map g xs)) st = fold (\<lambda>x. fold f (g x)) xs st"
  by (induction xs arbitrary: st) simp_all

lemma install_cheats_fold: "install_cheats items st = Inr (fold cheat (map fst items) st)"
  by (simp add: install_cheats_def for_each_pure [where g = cheat, OF cheat_methods_cheat])

lemma wrap_classes_fold:
  "wrap_classes items st = Inr (fold install (concat (map class_ops items)) st)"
  by (simp add: wrap_classes_def fold_concat_map
      for_each_pure [where g = "\<lambda>item. fold install (class_ops item)", OF wrap_class_install])

lemma init_fold: "init st = Inr (fold install all_ops (fold cheat (map fst classes) st))"
  by (simp add: init_def init_items_def install_cheats_fold wrap_classes_fold all_ops_def)

subsection \<open>What a sequence of installations does to one name\<close>

lemma attrs_install_other: "n \<noteq> fst op \<Longrightarrow> attrs (install op st) n = attrs st n"
  by (cases op) (simp add: install_def setattr_XendAPI_def log_warn_def split: option.splits)

lemma attrs_install_same:
  "attrs (install (n, deco, tag) st) n = map_option (\<lambda>f. set_api (deco f) tag) (attrs st n)"
  by (simp add: install_def setattr_XendAPI_def log_warn_def split: option.splits)

lemma attrs_fold_install_other:
  "n \<notin> fst ` set ops \<Longrightarrow> attrs (fold install ops st) n = attrs st n"
  by (induction ops arbitrary: st) (simp_all add: attrs_install_other)

lemma attrs_fold_install_once:
  "distinct (map fst ops) \<Longrightarrow> (n, deco, tag) \<in> set ops \<Longrightarrow>
   attrs (fold install ops st) n = map_option (\<lambda>f. set_api (deco f) tag) (attrs st n)"
proof (induction ops arbitrary: st)
  case Nil
  then show ?case by simp
next
  case (Cons op ops)
  show ?case
  proof (cases "op = (n, deco, tag)")
    case True
    with Cons.prems have "n \<notin> fst ` set ops" by auto
    then show ?thesis
      using True by (simp add: attrs_fold_install_other attrs_install_same)
  next
    case False
    have d: "distinct (map fst ops)" and nin: "fst op \<notin> fst ` set ops"
      using Cons.prems(1) by simp_all
    have mem: "(n, deco, tag) \<in> set ops"
      using Cons.prems(2) False by simp
    then have "n \<in> fst ` set ops" by force
    with nin have "n \<noteq> fst op" by blast
    then show ?thesis
      using Cons.IH [OF d mem] by (simp add: attrs_install_other)
  qed
qed

lemma install_None_iff: "attrs (install op st) n = None \<longleftrightarrow> attrs st n = None"
  by (cases op) (simp add: install_def setattr_XendAPI_def log_warn_def split: option.splits)

lemma fold_install_None_iff: "attrs (fold install ops st) n = None \<longleftrightarrow> attrs st n = None"
  by (induction ops arbitrary: st) (simp_all add: install_None_iff)

lemma log_install:
  "set (log (install op st)) =
     set (log st) \<union> (if attrs st (fst op) = None then {not_found (fst op)} else {})"
  by (cases op) (auto simp: install_def setattr_XendAPI_def log_warn_def split: option.splits)

lemma log_fold_install:
  "set (log (fold install ops st)) =
     set (log st) \<union> not_found ` {n \<in> fst ` set ops. attrs st n = None}"
proof (induction ops arbitrary: st)
  case Nil
  then show ?case by simp
next
  case (Cons op ops)
  have "set (log (fold install (op # ops) st)) =
        set (log (install op st))
        \<union> not_found ` {n \<in> fst ` set ops. attrs (install op st) n = None}"
    using Cons.IH by simp
  also have "\<dots> = set (log st) \<union> not_found ` {n \<in> fst ` set (op # ops). attrs st n = None}"
    by (auto simp: log_install install_None_iff)
  finally show ?case .
qed

subsection \<open>The first loop\<close>

lemma attrs_cheat:
  "attrs (cheat cls st) n =
     (if n = lower cls @ ''_get_uuid'' \<or> n = lower cls @ ''_get_by_uuid''
      then Some (Lambda None) else attrs st n)"
  by (simp add: cheat_def setattr_XendAPI_def)

lemma attrs_fold_cheat:
  "attrs (fold cheat clss st) n =
     (if n \<in> set (concat (map (\<lambda>cls. [lower cls @ ''_get_by_uuid'', lower cls @ ''_get_uuid'']) clss))
      then Some (Lambda None) else attrs st n)"
  by (induction clss arbitrary: st) (auto simp: attrs_cheat)

lemma attrs_cheats:
  "attrs (fold cheat (map fst classes) st) n =
     (if n \<in> set cheat_names then Some (Lambda None) else attrs st n)"
  by (simp add: attrs_fold_cheat cheat_names_def)

lemma log_fold_cheat: "log (fold cheat clss st) = log st"
  by (induction clss arbitrary: st) (simp_all add: cheat_def setattr_XendAPI_def)

subsection \<open>No handler name is produced twice\<close>

lemma names_class_ops:
  "map fst (class_ops (cls, vs)) = map ((@) (lower cls @ ''_'')) (local_names cls)"
  by (simp add: class_ops_def local_names_def getter_op_def setter_op_def method_op_def
      func_op_def comp_def)

lemma distinct_map_prefix: "distinct (map ((@) p) xs) = distinct xs"
  by (simp add: distinct_map inj_on_def)

lemma distinct_local_names:
  assumes "distinct (map lower (getter_attrs cls))"
    and "distinct (map lower (setter_attrs cls))"
    and "distinct (map lower (method_names cls @ func_names cls))"
    and "\<forall>m \<in> set (map lower (method_names cls @ func_names cls)).
           \<forall>a \<in> set (map lower (getter_attrs cls)). m \<noteq> ''get_'' @ a"
    and "\<forall>m \<in> set (map lower (method_names cls @ func_names cls)).
           \<forall>a \<in> set (map lower (setter_attrs cls)). m \<noteq> ''set_'' @ a"
  shows "distinct (local_names cls)"
  unfolding local_names_def distinct_append distinct_map_prefix
  using assms by auto

lemma distinct_local_Session: "distinct (local_names ''Session'')"
  by (rule distinct_local_names) (simp_all add: eval_names)

lemma distinct_local_Host: "distinct (local_names ''Host'')"
  by (rule distinct_local_names) (simp_all add: eval_names)

lemma distinct_local_Host_CPU: "distinct (local_names ''Host_CPU'')"
  by (rule distinct_local_names) (simp_all add: eval_names)

lemma distinct_local_VM: "distinct (local_names ''VM'')"
  by (rule distinct_local_names) (simp_all add: eval_names)

lemma distinct_local_VBD: "distinct (local_names ''VBD'')"
  by (rule distinct_local_names) (simp_all add: eval_names)

lemma distinct_local_VIF: "distinct (local_names ''VIF'')"
  by (rule distinct_local_names) (simp_all add: eval_names)

lemma all_ops_names:
  "map fst all_ops =
     map ((@) ''session_'') (local_names ''Session'') @ map ((@) ''host_'') (local_names ''Host'')
     @ map ((@) ''host_cpu_'') (local_names ''Host_CPU'') @ map ((@) ''vm_'') (local_names ''VM'')
     @ map ((@) ''vbd_'') (local_names ''VBD'') @ map ((@) ''vif_'') (local_names ''VIF'')"
  by (simp add: all_ops_def classes_def names_class_ops lower_simps)

lemma Host_not_cpu: "x \<in> set (local_names ''Host'') \<Longrightarrow> x \<noteq> ''cpu_'' @ y"
  by (auto simp: local_names_def eval_names)

lemma distinct_all_ops: "distinct (map fst all_ops)"
  unfolding all_ops_names
  by (auto simp: distinct_map_prefix distinct_local_Session distinct_local_Host
      distinct_local_Host_CPU distinct_local_VM distinct_local_VBD distinct_local_VIF
      dest: Host_not_cpu)

subsection \<open>The order of the classes does not matter\<close>

lemma mset_concat_map:
  "mset xs = mset ys \<Longrightarrow> mset (concat (map f xs)) = mset (concat (map f ys))"
  by (metis mset_concat mset_map sum_mset_sum_list)

lemma init_items_fold:
  "init_items items st =
     Inr (fold install (concat (map class_ops items)) (fold cheat (map fst items) st))"
  by (simp add: init_items_def install_cheats_fold wrap_classes_fold)

lemma attrs_fold_install_set:
  assumes "distinct (map fst ops)" and "distinct (map fst ops')" and "set ops = set ops'"
  shows "attrs (fold install ops st) n = attrs (fold install ops' st) n"
proof (cases "n \<in> fst ` set ops")
  case True
  then obtain deco tag where "(n, deco, tag) \<in> set ops" by force
  then show ?thesis
    using assms by (simp add: attrs_fold_install_once)
next
  case False
  then show ?thesis
    using assms(3) by (simp add: attrs_fold_install_other)
qed

lemma init_items_order:
  assumes "mset items = mset classes"
  shows "\<exists>st' st''. init_items items st = Inr st' \<and> init st = Inr st''
           \<and> attrs st' = attrs st'' \<and> set (log st') = set (log st'')"
proof -
  let ?ops = "concat (map class_ops items)"
  let ?c = "fold cheat (map fst items) st" and ?c' = "fold cheat (map fst classes) st"
  have ops: "mset ?ops = mset all_ops"
    unfolding all_ops_def by (rule mset_concat_map [OF assms])
  then have set_ops: "set ?ops = set all_ops"
    by (rule mset_eq_setD)
  have "mset (map fst ?ops) = mset (map fst all_ops)"
    using ops by (metis mset_map)
  then have dist: "distinct (map fst ?ops)"
    using distinct_all_ops by (metis mset_eq_imp_distinct_iff)
  have "set items = set classes"
    using assms by (rule mset_eq_setD)
  then have cheats: "attrs ?c = attrs ?c'"
    by (auto simp: attrs_fold_cheat fun_eq_iff)
  have logs: "log ?c = log ?c'"
    by (simp add: log_fold_cheat)
  have "attrs (fold install ?ops ?c) n = attrs (fold install all_ops ?c') n" for n
  proof -
    have "attrs (fold install ?ops ?c) n = attrs (fold install all_ops ?c) n"
      by (rule attrs_fold_install_set [OF dist distinct_all_ops set_ops])
    also have "\<dots> = attrs (fold install all_ops ?c') n"
    proof (cases "n \<in> fst ` set all_ops")
      case True
      then obtain deco tag where "(n, deco, tag) \<in> set all_ops" by force
      then show ?thesis
        using cheats by (simp add: attrs_fold_install_once [OF distinct_all_ops])
    next
      case False
      then show ?thesis
        using cheats by (simp add: attrs_fold_install_other)
    qed
    finally show ?thesis .
  qed
  moreover have "set (log (fold install ?ops ?c)) = set (log (fold install all_ops ?c'))"
    using set_ops cheats logs by (simp add: log_fold_install)
  ultimately show ?thesis
    by (auto simp: init_items_fold init_fold fun_eq_iff)
qed

subsection \<open>The state after construction, name by name\<close>

lemma init_attrs_op:
  assumes "init st = Inr st'" and "(n, deco, tag) \<in> set all_ops"
  shows "attrs st' n =
           map_option (\<lambda>f. set_api (deco f) tag) (attrs (fold cheat (map fst classes) st) n)"
  using assms by (auto simp: init_fold attrs_fold_install_once [OF distinct_all_ops])

lemma init_attrs_other:
  assumes "init st = Inr st'" and "n \<notin> fst ` set all_ops"
  shows "attrs st' n = attrs (fold cheat (map fst classes) st) n"
  using assms by (auto simp: init_fold attrs_fold_install_other)

lemma class_ops_all_ops: "item \<in> set classes \<Longrightarrow> op \<in> set (class_ops item) \<Longrightarrow> op \<in> set all_ops"
  by (auto simp: all_ops_def)

lemma getter_op_all_ops:
  "(cls, vs) \<in> set classes \<Longrightarrow> a \<in> set (getter_attrs cls) \<Longrightarrow> getter_op cls vs a \<in> set all_ops"
  by (rule class_ops_all_ops) (auto simp: class_ops_def)

lemma setter_op_all_ops:
  "(cls, vs) \<in> set classes \<Longrightarrow> a \<in> set (setter_attrs cls) \<Longrightarrow> setter_op cls vs a \<in> set all_ops"
  by (rule class_ops_all_ops) (auto simp: class_ops_def)

lemma method_op_all_ops:
  "(cls, vs) \<in> set classes \<Longrightarrow> m \<in> set (method_names cls) \<Longrightarrow> method_op cls vs m \<in> set all_ops"
  by (rule class_ops_all_ops) (auto simp: class_ops_def)

lemma func_op_all_ops:
  "(cls, vs) \<in> set classes \<Longrightarrow> fn \<in> set (func_names cls) \<Longrightarrow> func_op cls fn \<in> set all_ops"
  by (rule class_ops_all_ops) (auto simp: class_ops_def)

section \<open>Response constructors\<close>

text \<open>
  Claim C7. \<^verbatim>\<open>xen_api_success(value)\<close> is the dict with Status "Success" and the value
  under Value; \<^verbatim>\<open>xen_api_success_void()\<close> is the success envelope of the empty string,
  so its Value field is present and empty; \<^verbatim>\<open>xen_api_error(code)\<close> is the dict with
  Status "Error" and the code under ErrorDescription; \<^verbatim>\<open>xen_api_todo()\<close> is the error
  envelope of the TODO code.
\<close>

theorem response_constructors:
  "xen_api_success v = [''Status'' \<mapsto> Str ''Success'', ''Value'' \<mapsto> v]
   \<and> dom (xen_api_success v) = {''Status'', ''Value''}
   \<and> xen_api_success_void = xen_api_success (Str '''')
   \<and> xen_api_success_void ''Value'' = Some (Str '''')
   \<and> xen_api_error e = [''Status'' \<mapsto> Str ''Error'', ''ErrorDescription'' \<mapsto> e]
   \<and> dom (xen_api_error e) = {''Status'', ''ErrorDescription''}
   \<and> xen_api_todo = xen_api_error (ErrorCode XEND_ERROR_TODO)
   \<and> xen_api_todo ''Status'' = Some (Str ''Error'')"
  by (auto simp: xen_api_success_def xen_api_success_void_def xen_api_error_def
      xen_api_todo_def)

section \<open>Guards\<close>

lemma is_str_and_iff: "is_str_and v p \<longleftrightarrow> (\<exists>s. v = Str s \<and> p s)"
  by (cases v) simp_all

lemma call_set_api: "call E (set_api f tag) = call E f"
  by (cases f) simp_all

lemma call_reference_guards:
  "call E (valid_host func) (session # r # args) =
     (if is_str_and r (is_valid_host E) then call E func (session # r # args)
      else ([], Inr (failure XEND_ERROR_HOST_INVALID)))"
  "call E (valid_host_cpu func) (session # r # args) =
     (if is_str_and r (is_valid_cpu E) then call E func (session # r # args)
      else ([], Inr (failure XEND_ERROR_HOST_CPU_INVALID)))"
  "call E (valid_vm func) (session # r # args) =
     (if is_str_and r (is_valid_vm E) then call E func (session # r # args)
      else ([], Inr (failure XEND_ERROR_VM_INVALID)))"
  "call E (valid_vbd func) (session # r # args) =
     (if is_str_and r (is_valid_dev E ''vbd'') then call E func (session # r # args)
      else ([], Inr (failure XEND_ERROR_VBD_INVALID)))"
  "call E (valid_vif func) (session # r # args) =
     (if is_str_and r (is_valid_dev E ''vif'') then call E func (session # r # args)
      else ([], Inr (failure XEND_ERROR_VIF_INVALID)))"
  by (simp_all add: valid_host_def valid_host_cpu_def valid_vm_def valid_vbd_def valid_vif_def)

lemma call_session_required:
  "call E (session_required func) (session # args) =
     (if is_session_valid E session then call E func (session # args)
      else ([], Inr (failure XEND_ERROR_SESSION_INVALID)))"
  by (simp add: session_required_def)

text \<open>
  Claim C5. For each reference guard (host, host-cpu, vm, vbd, vif): when the reference
  argument is not a string, or is a string that the corresponding registry does not know,
  the guarded function returns the dict with Status "Failure" and the matching
  \<^verbatim>\<open>*_INVALID\<close> code under ErrorDescription, and no handler is called (the list of
  called handlers is empty), whatever the wrapped function is.
\<close>

theorem reference_guard_rejects:
  "((\<forall>s. r = Str s \<longrightarrow> \<not> is_valid_host E s) \<longrightarrow>
      call E (valid_host func) (session # r # args) =
        ([], Inr [''Status'' \<mapsto> Str ''Failure'',
                  ''ErrorDescription'' \<mapsto> ErrorCode XEND_ERROR_HOST_INVALID]))
   \<and> ((\<forall>s. r = Str s \<longrightarrow> \<not> is_valid_cpu E s) \<longrightarrow>
      call E (valid_host_cpu func) (session # r # args) =
        ([], Inr [''Status'' \<mapsto> Str ''Failure'',
                  ''ErrorDescription'' \<mapsto> ErrorCode XEND_ERROR_HOST_CPU_INVALID]))
   \<and> ((\<forall>s. r = Str s \<longrightarrow> \<not> is_valid_vm E s) \<longrightarrow>
      call E (valid_vm func) (session # r # args) =
        ([], Inr [''Status'' \<mapsto> Str ''Failure'',
                  ''ErrorDescription'' \<mapsto> ErrorCode XEND_ERROR_VM_INVALID]))
   \<and> ((\<forall>s. r = Str s \<longrightarrow> \<not> is_valid_dev E ''vbd'' s) \<longrightarrow>
      call E (valid_vbd func) (session # r # args) =
        ([], Inr [''Status'' \<mapsto> Str ''Failure'',
                  ''ErrorDescription'' \<mapsto> ErrorCode XEND_ERROR_VBD_INVALID]))
   \<and> ((\<forall>s. r = Str s \<longrightarrow> \<not> is_valid_dev E ''vif'' s) \<longrightarrow>
      call E (valid_vif func) (session # r # args) =
        ([], Inr [''Status'' \<mapsto> Str ''Failure'',
                  ''ErrorDescription'' \<mapsto> ErrorCode XEND_ERROR_VIF_INVALID]))"
  by (intro conjI impI; auto simp: call_reference_guards is_str_and_iff failure_def)

theorem reference_guard_rejects_witness:
  "call deny_all (valid_host (Def ''host_get_name_label'' None)) [Str ''s'', Str ''no-such-host''] =
     ([], Inr [''Status'' \<mapsto> Str ''Failure'',
               ''ErrorDescription'' \<mapsto> ErrorCode XEND_ERROR_HOST_INVALID])
   \<and> call deny_all (valid_host_cpu (Lambda None)) [Str ''s'', Str ''no-such-cpu''] =
     ([], Inr [''Status'' \<mapsto> Str ''Failure'',
               ''ErrorDescription'' \<mapsto> ErrorCode XEND_ERROR_HOST_CPU_INVALID])
   \<and> call deny_all (valid_vm (Def ''vm_start'' None)) [Str ''s'', Str ''no-such-vm''] =
     ([], Inr [''Status'' \<mapsto> Str ''Failure'',
               ''ErrorDescription'' \<mapsto> ErrorCode XEND_ERROR_VM_INVALID])
   \<and> call deny_all (valid_vbd (Def ''vbd_get_vm'' None)) [Str ''s'', Str ''no-such-vbd''] =
     ([], Inr [''Status'' \<mapsto> Str ''Failure'',
               ''ErrorDescription'' \<mapsto> ErrorCode XEND_ERROR_VBD_INVALID])
   \<and> call deny_all (valid_vif (Lambda None)) [Str ''s'', Str ''no-such-vif''] =
     ([], Inr [''Status'' \<mapsto> Str ''Failure'',
               ''ErrorDescription'' \<mapsto> ErrorCode XEND_ERROR_VIF_INVALID])"
  using reference_guard_rejects [of "Str ''no-such-host''" deny_all "Def ''host_get_name_label'' None" "Str ''s''" "[]"]
    reference_guard_rejects [of "Str ''no-such-cpu''" deny_all "Lambda None" "Str ''s''" "[]"]
    reference_guard_rejects [of "Str ''no-such-vm''" deny_all "Def ''vm_start'' None" "Str ''s''" "[]"]
    reference_guard_rejects [of "Str ''no-such-vbd''" deny_all "Def ''vbd_get_vm'' None" "Str ''s''" "[]"]
    reference_guard_rejects [of "Str ''no-such-vif''" deny_all "Lambda None" "Str ''s''" "[]"]
  by (simp add: deny_all_def)

text \<open>
  Claim C6. Every guard composes transparently. Applied to a session, a reference and
  further arguments, the guarded function returns exactly what the wrapped function
  returns on the same arguments when the check passes, and when the check fails it
  returns the guard's envelope (Status "Failure" with the guard's code) and calls no
  handler. The session guard looks at the session argument only.
\<close>

theorem guards_transparent:
  "call E (valid_host func) (session # r # args) =
     (if is_str_and r (is_valid_host E) then call E func (session # r # args)
      else ([], Inr (failure XEND_ERROR_HOST_INVALID)))
   \<and> call E (valid_host_cpu func) (session # r # args) =
     (if is_str_and r (is_valid_cpu E) then call E func (session # r # args)
      else ([], Inr (failure XEND_ERROR_HOST_CPU_INVALID)))
   \<and> call E (valid_vm func) (session # r # args) =
     (if is_str_and r (is_valid_vm E) then call E func (session # r # args)
      else ([], Inr (failure XEND_ERROR_VM_INVALID)))
   \<and> call E (valid_vbd func) (session # r # args) =
     (if is_str_and r (is_valid_dev E ''vbd'') then call E func (session # r # args)
      else ([], Inr (failure XEND_ERROR_VBD_INVALID)))
   \<and> call E (valid_vif func) (session # r # args) =
     (if is_str_and r (is_valid_dev E ''vif'') then call E func (session # r # args)
      else ([], Inr (failure XEND_ERROR_VIF_INVALID)))
   \<and> call E (session_required func) (session # args') =
     (if is_session_valid E session then call E func (session # args')
      else ([], Inr (failure XEND_ERROR_SESSION_INVALID)))
   \<and> failure e ''Status'' = Some (Str ''Failure'')
   \<and> failure e ''ErrorDescription'' = Some (ErrorCode e)"
  by (simp add: call_reference_guards call_session_required) (simp add: failure_def)

theorem guards_transparent_witness:
  "call allow_all (valid_vm (Def ''host_get_name_label'' None)) [Str ''s'', Str ''vm1''] =
     ([''host_get_name_label''], Inr (xen_api_success (Str ''node'')))
   \<and> call allow_all (Def ''host_get_name_label'' None) [Str ''s'', Str ''vm1''] =
     ([''host_get_name_label''], Inr (xen_api_success (Str ''node'')))
   \<and> call deny_all (valid_vm (Def ''host_get_name_label'' None)) [Str ''s'', Str ''vm1''] =
     ([], Inr (failure XEND_ERROR_VM_INVALID))
   \<and> call deny_all (session_required (Def ''host_get_name_label'' None)) [Str ''s'', Str ''vm1''] =
     ([], Inr (failure XEND_ERROR_SESSION_INVALID))"
  using guards_transparent [of allow_all "Def ''host_get_name_label'' None" "Str ''s''" "Str ''vm1''" "[]"]
   guards_transparent [of deny_all "Def ''host_get_name_label'' None" "Str ''s''" "Str ''vm1''" "[]" "[Str ''vm1'']"]
  by (simp add: allow_all_def deny_all_def XendAPI_method_def host_get_name_label_def)


section \<open>Construction, operation by operation\<close>

lemma init_total: "\<exists>st1 st'. install_cheats classes st = Inr st1 \<and> init st = Inr st'"
  by (simp add: install_cheats_fold init_fold)

lemma init_op:
  assumes "install_cheats classes st = Inr st1" and "init st = Inr st'"
    and "(n, deco, tag) \<in> set all_ops"
  shows "attrs st' n = map_option (\<lambda>f. set_api (deco f) tag) (attrs st1 n)"
    and "attrs st1 n = None \<Longrightarrow> not_found n \<in> set (log st')"
proof -
  have st1: "st1 = fold cheat (map fst classes) st"
    using assms(1) by (simp add: install_cheats_fold)
  show "attrs st' n = map_option (\<lambda>f. set_api (deco f) tag) (attrs st1 n)"
    using init_attrs_op [OF assms(2,3)] st1 by simp
  have "n \<in> fst ` set all_ops"
    using assms(3) by force
  moreover have "st' = fold install all_ops st1"
    using assms(2) st1 by (simp add: init_fold)
  ultimately show "not_found n \<in> set (log st')" if "attrs st1 n = None"
    using that by (simp add: log_fold_install)
qed

lemma init_skipped_or_registered:
  assumes "install_cheats classes st = Inr st1" and "init st = Inr st'" and "op \<in> set all_ops"
  shows "skipped_or_registered st1 st' op"
proof (cases op)
  case (fields n deco tag)
  then have mem: "(n, deco, tag) \<in> set all_ops"
    using assms(3) by simp
  show ?thesis
    using init_op [OF assms(1,2) mem] fields
    by (auto simp: skipped_or_registered_def not_found_def split: option.splits)
qed

lemma cheats_initial:
  "install_cheats classes XendAPI_initial = Inr st1 \<Longrightarrow>
   attrs st1 n = (if n \<in> set cheat_names then Some (Lambda None) else XendAPI_class n)"
  by (auto simp: install_cheats_fold attrs_cheats XendAPI_initial_def)

lemma map_of_map_key:
  "map_of (map (\<lambda>n. (n, g n)) xs) k = (if k \<in> set xs then Some (g k) else None)"
  by (induction xs) auto

lemma XendAPI_class_eq:
  "XendAPI_class name =
     (if name = ''session_login_with_password''
      then Some (Def name (Some ''Session.login_with_password''))
      else if name \<in> set XendAPI_defs then Some (Def name None) else None)"
  by (simp add: XendAPI_class_def map_of_map_key)

lemma XendAPI_class_lookups:
  "XendAPI_class ''host_to_xml'' = None"
  "XendAPI_class ''host_get_record'' = Some (Def ''host_get_record'' None)"
  "XendAPI_class ''host_get_name_label'' = Some (Def ''host_get_name_label'' None)"
  "XendAPI_class ''host_cpu_get_uuid'' = Some (Def ''host_cpu_get_uuid'' None)"
  "XendAPI_class ''vm_create'' = Some (Def ''vm_create'' None)"
  by (simp_all add: XendAPI_class_eq XendAPI_defs_def)

lemma Host_in_classes: "(''Host'', [valid_host, session_required]) \<in> set classes"
  by (simp add: classes_def)

lemma login_not_local: "''login_with_password'' \<notin> set (local_names ''Session'')"
  by (simp add: local_names_def eval_names)

lemma login_not_op: "''session_login_with_password'' \<notin> fst ` set all_ops"
proof -
  have "''session_login_with_password'' \<notin> set (map fst all_ops)"
    unfolding all_ops_names using login_not_local by auto
  then show ?thesis by simp
qed

lemma cheat_names_eq:
  "cheat_names =
     [''session_get_by_uuid'', ''session_get_uuid'', ''host_get_by_uuid'', ''host_get_uuid'',
      ''host_cpu_get_by_uuid'', ''host_cpu_get_uuid'', ''vm_get_by_uuid'', ''vm_get_uuid'',
      ''vbd_get_by_uuid'', ''vbd_get_uuid'', ''vif_get_by_uuid'', ''vif_get_uuid'']"
  by (simp add: cheat_names_def classes_def lower_simps)

lemma success_not_error: "xen_api_success v \<noteq> xen_api_error e"
proof
  assume "xen_api_success v = xen_api_error e"
  then have "xen_api_success v ''Status'' = xen_api_error e ''Status''" by simp
  then show False by (simp add: xen_api_success_def xen_api_error_def)
qed

section \<open>Login\<close>

text \<open>
  Claim C8. \<^verbatim>\<open>session_login_with_password(username, password)\<close> returns the success
  envelope of the token that the session manager produces; it returns the error envelope
  with the authentication-failed code exactly when the session manager raises
  \<^verbatim>\<open>XendError\<close>. Construction leaves the class attribute untouched, so after construction
  it is still the function of the class body, with no check around it.
\<close>

theorem login_with_password_result:
  "(login_with_password E username password = Inr token \<longrightarrow>
      call E (Def ''session_login_with_password'' a) [username, password] =
        ([''session_login_with_password''], Inr (xen_api_success token)))
   \<and> (call E (Def ''session_login_with_password'' a) [username, password] =
        ([''session_login_with_password''],
         Inr (xen_api_error (ErrorCode XEND_ERROR_AUTHENTICATION_FAILED)))
      \<longleftrightarrow> login_with_password E username password = Inl XendError)
   \<and> (init st = Inr st' \<longrightarrow>
        attrs st' ''session_login_with_password'' = attrs st ''session_login_with_password'')
   \<and> (init XendAPI_initial = Inr st'' \<longrightarrow>
        attrs st'' ''session_login_with_password'' =
          Some (Def ''session_login_with_password'' (Some ''Session.login_with_password''))
        \<and> checks (Def ''session_login_with_password'' (Some ''Session.login_with_password'')) = [])"
proof -
  have unchanged: "attrs s' ''session_login_with_password'' = attrs s ''session_login_with_password''"
    if "init s = Inr s'" for s s'
    using init_attrs_other [OF that login_not_op] by (simp add: attrs_cheats cheat_names_eq)
  have call_eq: "XendAPI_method E ''session_login_with_password'' [username, password] =
       (case login_with_password E username password of
          Inr session \<Rightarrow> Inr (xen_api_success session)
        | Inl XendError \<Rightarrow> Inr (xen_api_error (ErrorCode XEND_ERROR_AUTHENTICATION_FAILED))
        | Inl e \<Rightarrow> Inl e)"
    by (simp add: XendAPI_method_def session_login_with_password_def)
  have initial: "attrs XendAPI_initial ''session_login_with_password'' =
      Some (Def ''session_login_with_password'' (Some ''Session.login_with_password''))"
    by (simp add: XendAPI_initial_def XendAPI_class_def)
  show ?thesis
    using unchanged [of st st'] unchanged [of XendAPI_initial st''] initial
    by (auto simp: call_eq success_not_error split: sum.splits exn.splits)
qed

theorem login_with_password_result_witness:
  "call allow_all (Def ''session_login_with_password'' None) [Str ''u'', Str ''p''] =
     ([''session_login_with_password''], Inr (xen_api_success (Str ''token'')))
   \<and> call deny_all (Def ''session_login_with_password'' None) [Str ''u'', Str ''p''] =
     ([''session_login_with_password''],
      Inr (xen_api_error (ErrorCode XEND_ERROR_AUTHENTICATION_FAILED)))
   \<and> (\<exists>st. init XendAPI_initial = Inr st
        \<and> attrs st ''session_login_with_password'' =
            Some (Def ''session_login_with_password'' (Some ''Session.login_with_password'')))"
proof -
  obtain st where st: "init XendAPI_initial = Inr st"
    by (simp add: init_fold)
  show ?thesis
    using login_with_password_result [of allow_all "Str ''u''" "Str ''p''" "Str ''token''" None XendAPI_initial st st]
      login_with_password_result [of deny_all "Str ''u''" "Str ''p''" "Str ''token''" None XendAPI_initial st st]
      st
    by (simp add: allow_all_def deny_all_def)
qed

section \<open>Missing handlers\<close>

text \<open>
  Claim C3. Construction always completes, whatever functions the class has. For every
  class of \<open>classes\<close> and every declared attribute, method and function name: when the
  handler name built by the naming convention does not resolve, the attribute stays
  absent and the warning for that name is in the log; when it resolves, the handler is
  replaced by its decorated and tagged version, also for names that come after a
  missing one.
\<close>

theorem missing_handlers_skipped:
  "\<exists>st1 st'. install_cheats classes st = Inr st1 \<and> init st = Inr st' \<and>
     (\<forall>(cls, validators) \<in> set classes.
        (\<forall>attr_name \<in> set (getattr_list (cls @ ''_attr_ro'') @ getattr_list (cls @ ''_attr_rw'')
                             @ Base_attr_ro).
           skipped_or_registered st1 st'
             (lower cls @ ''_get_'' @ lower attr_name, apply_validators validators,
              cls @ ''.get_'' @ attr_name))
      \<and> (\<forall>attr_name \<in> set (getattr_list (cls @ ''_attr_rw'') @ Base_attr_rw).
           skipped_or_registered st1 st'
             (lower cls @ ''_set_'' @ lower attr_name, apply_validators validators,
              cls @ ''.set_'' @ attr_name))
      \<and> (\<forall>method_name \<in> set (getattr_list (cls @ ''_methods'') @ Base_methods).
           skipped_or_registered st1 st'
             (lower cls @ ''_'' @ lower method_name, apply_validators validators,
              cls @ ''.'' @ method_name))
      \<and> (\<forall>func_name \<in> set (getattr_list (cls @ ''_funcs'') @ Base_funcs).
           skipped_or_registered st1 st'
             (lower cls @ ''_'' @ lower func_name, session_required, cls @ ''.'' @ func_name)))"
proof -
  obtain st1 st' where st1: "install_cheats classes st = Inr st1" and st': "init st = Inr st'"
    using init_total by blast
  note sr = init_skipped_or_registered [OF st1 st']
  have "skipped_or_registered st1 st' (getter_op cls vs a)"
    if "(cls, vs) \<in> set classes" and "a \<in> set (getter_attrs cls)" for cls vs a
    using that by (intro sr getter_op_all_ops)
  moreover have "skipped_or_registered st1 st' (setter_op cls vs a)"
    if "(cls, vs) \<in> set classes" and "a \<in> set (setter_attrs cls)" for cls vs a
    using that by (intro sr setter_op_all_ops)
  moreover have "skipped_or_registered st1 st' (method_op cls vs m)"
    if "(cls, vs) \<in> set classes" and "m \<in> set (method_names cls)" for cls vs m
    using that by (intro sr method_op_all_ops)
  moreover have "skipped_or_registered st1 st' (func_op cls fn)"
    if "(cls, vs) \<in> set classes" and "fn \<in> set (func_names cls)" for cls vs fn
    using that by (intro sr func_op_all_ops)
  ultimately have
    "\<forall>(cls, validators) \<in> set classes.
        (\<forall>a \<in> set (getter_attrs cls). skipped_or_registered st1 st' (getter_op cls validators a))
      \<and> (\<forall>a \<in> set (setter_attrs cls). skipped_or_registered st1 st' (setter_op cls validators a))
      \<and> (\<forall>m \<in> set (method_names cls). skipped_or_registered st1 st' (method_op cls validators m))
      \<and> (\<forall>fn \<in> set (func_names cls). skipped_or_registered st1 st' (func_op cls fn))"
    by blast
  then show ?thesis
    using st1 st'
    unfolding getter_attrs_def setter_attrs_def method_names_def func_names_def
      getter_op_def setter_op_def method_op_def func_op_def
    by blast
qed

theorem missing_handlers_skipped_witness:
  "\<exists>st'. init XendAPI_initial = Inr st'
     \<and> attrs st' ''host_to_xml'' = None
     \<and> ''API call: host_to_xml not found'' \<in> set (log st')
     \<and> attrs st' ''host_get_record'' =
         Some (Closure check_session (Closure check_host_ref (Def ''host_get_record'' None) None)
                 (Some ''Host.get_record''))"
proof -
  from missing_handlers_skipped [of XendAPI_initial]
  obtain st1 st' where st1: "install_cheats classes XendAPI_initial = Inr st1"
    and st': "init XendAPI_initial = Inr st'"
    and all: "\<forall>(cls, validators) \<in> set classes.
        (\<forall>attr_name \<in> set (getattr_list (cls @ ''_attr_ro'') @ getattr_list (cls @ ''_attr_rw'')
                             @ Base_attr_ro).
           skipped_or_registered st1 st'
             (lower cls @ ''_get_'' @ lower attr_name, apply_validators validators,
              cls @ ''.get_'' @ attr_name))
      \<and> (\<forall>attr_name \<in> set (getattr_list (cls @ ''_attr_rw'') @ Base_attr_rw).
           skipped_or_registered st1 st'
             (lower cls @ ''_set_'' @ lower attr_name, apply_validators validators,
              cls @ ''.set_'' @ attr_name))
      \<and> (\<forall>method_name \<in> set (getattr_list (cls @ ''_methods'') @ Base_methods).
           skipped_or_registered st1 st'
             (lower cls @ ''_'' @ lower method_name, apply_validators validators,
              cls @ ''.'' @ method_name))
      \<and> (\<forall>func_name \<in> set (getattr_list (cls @ ''_funcs'') @ Base_funcs).
           skipped_or_registered st1 st'
             (lower cls @ ''_'' @ lower func_name, session_required, cls @ ''.'' @ func_name))"
    by blast
  from all Host_in_classes
  have methods: "\<forall>method_name \<in> set (getattr_list (''Host'' @ ''_methods'') @ Base_methods).
      skipped_or_registered st1 st'
        (lower ''Host'' @ ''_'' @ lower method_name,
         apply_validators [valid_host, session_required], ''Host'' @ ''.'' @ method_name)"
    by fast
  have "skipped_or_registered st1 st'
      (''host_to_xml'', apply_validators [valid_host, session_required], ''Host.to_XML'')"
    using methods [THEN bspec, of "''to_XML''"] by (simp add: Base_methods_def lower_simps)
  moreover have "skipped_or_registered st1 st'
      (''host_get_record'', apply_validators [valid_host, session_required], ''Host.get_record'')"
    using methods [THEN bspec, of "''get_record''"] by (simp add: Base_methods_def lower_simps)
  ultimately show ?thesis
    using st'
    by (simp add: skipped_or_registered_def cheats_initial [OF st1] cheat_names_eq
        XendAPI_class_lookups apply_validators_def valid_host_def session_required_def)
qed


section \<open>Class functions\<close>

lemma checks_set_api: "checks (set_api f tag) = checks f"
  by (cases f) simp_all

lemma set_api_session_required:
  "set_api (session_required f) tag = Closure check_session f (Some tag)"
  by (simp add: session_required_def)

lemma XendAPI_class_plain: "XendAPI_class n = Some f \<Longrightarrow> checks f = []"
  by (auto simp: XendAPI_class_eq split: if_splits)

lemma cheats_initial_plain:
  "install_cheats classes XendAPI_initial = Inr st1 \<Longrightarrow> attrs st1 n = Some f \<Longrightarrow> checks f = []"
  by (auto simp: cheats_initial dest: XendAPI_class_plain split: if_splits)

lemma init_constructed: "init XendAPI_initial = Inr constructed"
  by (simp add: constructed_def init_fold)

text \<open>
  Claim C4. For every class of \<open>classes\<close>, also those whose guard chain has a reference
  guard, and every class-level function (the class's own \<^verbatim>\<open>funcs\<close> and the base functions
  create, get_by_uuid, get_all): the handler \<open>f\<close> found under the function's name is
  replaced by the inner function of \<^verbatim>\<open>session_required\<close> closed over \<open>f\<close>, and nothing
  else is put around it. Starting from the class as the class body leaves it, the checks
  around the installed function are exactly the session check.
\<close>

theorem class_functions_session_only:
  "Base_funcs = [''create'', ''get_by_uuid'', ''get_all'']
   \<and> (\<forall>(cls, validators) \<in> set classes.
        \<forall>func_name \<in> set (getattr_list (cls @ ''_funcs'') @ Base_funcs).
          (\<forall>st st1 st' f.
             install_cheats classes st = Inr st1 \<and> init st = Inr st'
             \<and> attrs st1 (lower cls @ ''_'' @ lower func_name) = Some f
             \<longrightarrow> attrs st' (lower cls @ ''_'' @ lower func_name) =
                   Some (Closure check_session f (Some (cls @ ''.'' @ func_name))))
          \<and> (\<forall>st' g.
               init XendAPI_initial = Inr st'
               \<and> attrs st' (lower cls @ ''_'' @ lower func_name) = Some g
               \<longrightarrow> checks g = [check_session]))"
proof -
  have general: "attrs st' (lower cls @ ''_'' @ lower fn) =
      Some (Closure check_session f (Some (cls @ ''.'' @ fn)))"
    if "(cls, vs) \<in> set classes" and "fn \<in> set (func_names cls)"
      and "install_cheats classes st = Inr st1" and "init st = Inr st'"
      and "attrs st1 (lower cls @ ''_'' @ lower fn) = Some f"
    for cls vs fn st st1 st' f
  proof -
    have "(lower cls @ ''_'' @ lower fn, session_required, cls @ ''.'' @ fn) \<in> set all_ops"
      using func_op_all_ops [OF that(1,2)] by (simp add: func_op_def)
    from init_op(1) [OF that(3,4) this] that(5) show ?thesis
      by (simp add: set_api_session_required)
  qed
  have initial: "checks g = [check_session]"
    if "(cls, vs) \<in> set classes" and "fn \<in> set (func_names cls)"
      and "init XendAPI_initial = Inr st'"
      and "attrs st' (lower cls @ ''_'' @ lower fn) = Some g"
    for cls vs fn st' g
  proof -
    obtain st1 where st1: "install_cheats classes XendAPI_initial = Inr st1"
      using init_total by blast
    have mem: "(lower cls @ ''_'' @ lower fn, session_required, cls @ ''.'' @ fn) \<in> set all_ops"
      using func_op_all_ops [OF that(1,2)] by (simp add: func_op_def)
    from init_op(1) [OF st1 that(3) mem] that(4)
    obtain f where f: "attrs st1 (lower cls @ ''_'' @ lower fn) = Some f"
      and g: "g = set_api (session_required f) (cls @ ''.'' @ fn)"
      by auto
    from cheats_initial_plain [OF st1 f] g show ?thesis
      by (simp add: set_api_session_required)
  qed
  have "\<forall>(cls, validators) \<in> set classes.
        \<forall>func_name \<in> set (func_names cls).
          (\<forall>st st1 st' f.
             install_cheats classes st = Inr st1 \<and> init st = Inr st'
             \<and> attrs st1 (lower cls @ ''_'' @ lower func_name) = Some f
             \<longrightarrow> attrs st' (lower cls @ ''_'' @ lower func_name) =
                   Some (Closure check_session f (Some (cls @ ''.'' @ func_name))))
          \<and> (\<forall>st' g.
               init XendAPI_initial = Inr st'
               \<and> attrs st' (lower cls @ ''_'' @ lower func_name) = Some g
               \<longrightarrow> checks g = [check_session])"
    using general initial by blast
  then show ?thesis
    unfolding func_names_def by (intro conjI) (simp_all only: Base_funcs_def simp_thms)
qed

theorem class_functions_session_only_witness:
  "attrs constructed ''host_get_all'' =
     Some (Closure check_session (Def ''host_get_all'' None) (Some ''Host.get_all''))
   \<and> map_option checks (attrs constructed ''host_get_all'') = Some [check_session]"
proof -
  obtain st1 where st1: "install_cheats classes XendAPI_initial = Inr st1"
    using init_total by blast
  have f: "attrs st1 ''host_get_all'' = Some (Def ''host_get_all'' None)"
    by (simp add: cheats_initial [OF st1] cheat_names_eq XendAPI_class_eq XendAPI_defs_def)
  have fn: "''get_all'' \<in> set (getattr_list (''Host'' @ ''_funcs'') @ Base_funcs)"
    by (simp add: Base_funcs_def)
  from class_functions_session_only Host_in_classes
  have "\<forall>func_name \<in> set (getattr_list (''Host'' @ ''_funcs'') @ Base_funcs).
          (\<forall>st st1 st' f.
             install_cheats classes st = Inr st1 \<and> init st = Inr st'
             \<and> attrs st1 (lower ''Host'' @ ''_'' @ lower func_name) = Some f
             \<longrightarrow> attrs st' (lower ''Host'' @ ''_'' @ lower func_name) =
                   Some (Closure check_session f (Some (''Host'' @ ''.'' @ func_name))))"
    by fast
  from this [THEN bspec, OF fn] st1 init_constructed f show ?thesis
    by (simp add: lower_simps)
qed

section \<open>The identity shortcuts\<close>

lemma call_attr_Some: "attrs st name = Some f \<Longrightarrow> call_attr E st name args = call E f args"
  by (simp add: call_attr_def getattr_XendAPI_def)

lemma cheat_name_mem:
  "(cls, vs) \<in> set classes \<Longrightarrow>
   lower cls @ ''_get_uuid'' \<in> set cheat_names \<and> lower cls @ ''_get_by_uuid'' \<in> set cheat_names"
  by (force simp: cheat_names_def)

lemma uuid_in_getter_attrs: "''uuid'' \<in> set (getter_attrs cls)"
  by (simp add: getter_attrs_def Base_attr_ro_def)

lemma get_by_uuid_in_func_names: "''get_by_uuid'' \<in> set (func_names cls)"
  by (simp add: func_names_def Base_funcs_def)

lemma init_shortcuts:
  assumes "(cls, vs) \<in> set classes" and "init st = Inr st'"
  shows "attrs st' (lower cls @ ''_get_uuid'') =
           Some (set_api (apply_validators vs (Lambda None)) (cls @ ''.get_uuid''))"
    and "attrs st' (lower cls @ ''_get_by_uuid'') =
           Some (set_api (session_required (Lambda None)) (cls @ ''.get_by_uuid''))"
proof -
  obtain st1 where st1: "install_cheats classes st = Inr st1"
    using init_total by blast
  have lam: "attrs st1 (lower cls @ ''_get_uuid'') = Some (Lambda None)"
    "attrs st1 (lower cls @ ''_get_by_uuid'') = Some (Lambda None)"
    using st1 cheat_name_mem [OF assms(1)] by (auto simp: install_cheats_fold attrs_cheats)
  have "(lower cls @ ''_get_uuid'', apply_validators vs, cls @ ''.get_uuid'') \<in> set all_ops"
    using getter_op_all_ops [OF assms(1) uuid_in_getter_attrs]
    by (simp add: getter_op_def lower_simps)
  from init_op(1) [OF st1 assms(2) this] lam(1)
  show "attrs st' (lower cls @ ''_get_uuid'') =
           Some (set_api (apply_validators vs (Lambda None)) (cls @ ''.get_uuid''))"
    by simp
  have "(lower cls @ ''_get_by_uuid'', session_required, cls @ ''.get_by_uuid'') \<in> set all_ops"
    using func_op_all_ops [OF assms(1) get_by_uuid_in_func_names]
    by (simp add: func_op_def lower_simps)
  from init_op(1) [OF st1 assms(2) this] lam(2)
  show "attrs st' (lower cls @ ''_get_by_uuid'') =
           Some (set_api (session_required (Lambda None)) (cls @ ''.get_by_uuid''))"
    by simp
qed

lemma session_guard_outermost:
  "(cls, vs) \<in> set classes \<Longrightarrow> \<not> is_session_valid E session \<Longrightarrow>
   call E (apply_validators vs f) (session # args) = ([], Inr (failure XEND_ERROR_SESSION_INVALID))"
  by (auto simp: classes_def apply_validators_def call_session_required)

lemma Host_CPU_in_classes: "(''Host_CPU'', [valid_host_cpu, session_required]) \<in> set classes"
  by (simp add: classes_def)

lemma classes_mem:
  "(''Session'', [session_required]) \<in> set classes"
  "(''VM'', [valid_vm, session_required]) \<in> set classes"
  "(''VBD'', [valid_vbd, session_required]) \<in> set classes"
  "(''VIF'', [valid_vif, session_required]) \<in> set classes"
  by (simp_all add: classes_def)

lemma init_get_uuid:
  assumes "init st = Inr st'"
  shows "attrs st' ''session_get_uuid'' =
           Some (Closure check_session (Lambda None) (Some ''Session.get_uuid''))"
    and "attrs st' ''host_get_uuid'' =
           Some (Closure check_session (Closure check_host_ref (Lambda None) None)
                   (Some ''Host.get_uuid''))"
    and "attrs st' ''host_cpu_get_uuid'' =
           Some (Closure check_session (Closure check_host_cpu_ref (Lambda None) None)
                   (Some ''Host_CPU.get_uuid''))"
    and "attrs st' ''vm_get_uuid'' =
           Some (Closure check_session (Closure check_vm_ref (Lambda None) None)
                   (Some ''VM.get_uuid''))"
    and "attrs st' ''vbd_get_uuid'' =
           Some (Closure check_session (Closure check_vbd_ref (Lambda None) None)
                   (Some ''VBD.get_uuid''))"
    and "attrs st' ''vif_get_uuid'' =
           Some (Closure check_session (Closure check_vif_ref (Lambda None) None)
                   (Some ''VIF.get_uuid''))"
  using init_shortcuts(1) [OF classes_mem(1) assms] init_shortcuts(1) [OF Host_in_classes assms]
    init_shortcuts(1) [OF Host_CPU_in_classes assms] init_shortcuts(1) [OF classes_mem(2) assms]
    init_shortcuts(1) [OF classes_mem(3) assms] init_shortcuts(1) [OF classes_mem(4) assms]
  by (simp_all add: lower_simps apply_validators_def valid_host_def valid_host_cpu_def
      valid_vm_def valid_vbd_def valid_vif_def session_required_def)

lemma init_get_by_uuid:
  assumes "init st = Inr st'"
  shows "attrs st' ''session_get_by_uuid'' =
           Some (Closure check_session (Lambda None) (Some ''Session.get_by_uuid''))"
    and "attrs st' ''host_get_by_uuid'' =
           Some (Closure check_session (Lambda None) (Some ''Host.get_by_uuid''))"
    and "attrs st' ''host_cpu_get_by_uuid'' =
           Some (Closure check_session (Lambda None) (Some ''Host_CPU.get_by_uuid''))"
    and "attrs st' ''vm_get_by_uuid'' =
           Some (Closure check_session (Lambda None) (Some ''VM.get_by_uuid''))"
    and "attrs st' ''vbd_get_by_uuid'' =
           Some (Closure check_session (Lambda None) (Some ''VBD.get_by_uuid''))"
    and "attrs st' ''vif_get_by_uuid'' =
           Some (Closure check_session (Lambda None) (Some ''VIF.get_by_uuid''))"
  using init_shortcuts(2) [OF classes_mem(1) assms] init_shortcuts(2) [OF Host_in_classes assms]
    init_shortcuts(2) [OF Host_CPU_in_classes assms] init_shortcuts(2) [OF classes_mem(2) assms]
    init_shortcuts(2) [OF classes_mem(3) assms] init_shortcuts(2) [OF classes_mem(4) assms]
  by (simp_all add: lower_simps session_required_def)

text \<open>
  Claim C1, as stated, fails. After construction \<^verbatim>\<open>host_get_uuid\<close> carries the session
  check and the host check, and \<^verbatim>\<open>host_get_by_uuid\<close> the session check: the second loop
  wraps the functions that the first loop installed, because \<^verbatim>\<open>uuid\<close> is in
  \<^verbatim>\<open>Base_attr_ro\<close> and \<^verbatim>\<open>get_by_uuid\<close> is in \<^verbatim>\<open>Base_funcs\<close>. A call with a session
  that is not valid returns the session-invalid envelope, and with a valid session and an
  unknown host reference \<^verbatim>\<open>host_get_uuid\<close> returns the host-invalid envelope, not
  \<^verbatim>\<open>success(reference)\<close>.
\<close>

theorem identity_shortcuts_unguarded_counterexample:
  "init XendAPI_initial = Inr constructed
   \<and> map_option checks (attrs constructed ''host_get_uuid'') = Some [check_session, check_host_ref]
   \<and> map_option checks (attrs constructed ''host_get_by_uuid'') = Some [check_session]
   \<and> call_attr deny_all constructed ''host_get_uuid'' [Str ''session'', Str ''ref''] =
       ([], Inr (failure XEND_ERROR_SESSION_INVALID))
   \<and> call_attr deny_all constructed ''host_get_by_uuid'' [Str ''session'', Str ''ref''] =
       ([], Inr (failure XEND_ERROR_SESSION_INVALID))
   \<and> call_attr (deny_all\<lparr>is_session_valid := \<lambda>s. True\<rparr>) constructed ''host_get_uuid''
         [Str ''session'', Str ''ref''] =
       ([], Inr (failure XEND_ERROR_HOST_INVALID))"
  using init_shortcuts [OF Host_in_classes init_constructed]
  by (simp add: init_constructed call_attr_Some lower_simps apply_validators_def
      checks_set_api call_set_api call_session_required call_reference_guards
      valid_host_def session_required_def deny_all_def)

text \<open>
  Claim C1, amended. For every class of \<open>classes\<close>, construction first installs under
  \<^verbatim>\<open>get_uuid\<close> and \<^verbatim>\<open>get_by_uuid\<close> a function that returns \<^verbatim>\<open>success(reference)\<close> for
  any reference, and then wraps both as it wraps every declared operation: \<^verbatim>\<open>get_uuid\<close>
  in the class's guard chain, \<^verbatim>\<open>get_by_uuid\<close> in the session guard. A call reaches the
  identity function only when those guards pass. For each of the six classes, a call of
  \<^verbatim>\<open>get_uuid\<close> returns the session-invalid envelope when the session is not valid, the
  class's reference-invalid envelope when the session is valid and the reference is not a
  string that the registry knows, and \<^verbatim>\<open>success(reference)\<close> when both pass (Session has
  the session guard only); a call of \<^verbatim>\<open>get_by_uuid\<close> returns \<^verbatim>\<open>success(reference)\<close> when
  the session is valid and the session-invalid envelope when it is not.
\<close>

theorem identity_shortcuts_guarded:
  "(\<forall>(cls, validators) \<in> set classes.
     \<forall>st st'. init st = Inr st' \<longrightarrow>
       (\<exists>g_uuid g_by_uuid.
          attrs st' (lower cls @ ''_get_uuid'') = Some g_uuid
          \<and> attrs st' (lower cls @ ''_get_by_uuid'') = Some g_by_uuid
          \<and> g_uuid = set_api (apply_validators validators (Lambda None)) (cls @ ''.get_uuid'')
          \<and> g_by_uuid = set_api (session_required (Lambda None)) (cls @ ''.get_by_uuid'')
          \<and> (\<forall>E session r a.
                call E (Lambda a) [session, r] = ([''<lambda>''], Inr (xen_api_success r))
                \<and> call E g_by_uuid [session, r] =
                    (if is_session_valid E session
                     then ([''<lambda>''], Inr (xen_api_success r))
                     else ([], Inr (failure XEND_ERROR_SESSION_INVALID)))
                \<and> (\<not> is_session_valid E session \<longrightarrow>
                      call E g_uuid [session, r] =
                        ([], Inr (failure XEND_ERROR_SESSION_INVALID))))))
   \<and> (\<forall>st st' E session r. init st = Inr st' \<longrightarrow>
         call_attr E st' ''session_get_uuid'' [session, r] =
           (if is_session_valid E session
            then ([''<lambda>''], Inr (xen_api_success r))
            else ([], Inr (failure XEND_ERROR_SESSION_INVALID)))
       \<and> call_attr E st' ''host_get_uuid'' [session, r] =
           (if is_session_valid E session
            then if is_str_and r (is_valid_host E)
                 then ([''<lambda>''], Inr (xen_api_success r))
                 else ([], Inr (failure XEND_ERROR_HOST_INVALID))
            else ([], Inr (failure XEND_ERROR_SESSION_INVALID)))
       \<and> call_attr E st' ''host_cpu_get_uuid'' [session, r] =
           (if is_session_valid E session
            then if is_str_and r (is_valid_cpu E)
                 then ([''<lambda>''], Inr (xen_api_success r))
                 else ([], Inr (failure XEND_ERROR_HOST_CPU_INVALID))
            else ([], Inr (failure XEND_ERROR_SESSION_INVALID)))
       \<and> call_attr E st' ''vm_get_uuid'' [session, r] =
           (if is_session_valid E session
            then if is_str_and r (is_valid_vm E)
                 then ([''<lambda>''], Inr (xen_api_success r))
                 else ([], Inr (failure XEND_ERROR_VM_INVALID))
            else ([], Inr (failure XEND_ERROR_SESSION_INVALID)))
       \<and> call_attr E st' ''vbd_get_uuid'' [session, r] =
           (if is_session_valid E session
            then if is_str_and r (is_valid_dev E ''vbd'')
                 then ([''<lambda>''], Inr (xen_api_success r))
                 else ([], Inr (failure XEND_ERROR_VBD_INVALID))
            else ([], Inr (failure XEND_ERROR_SESSION_INVALID)))
       \<and> call_attr E st' ''vif_get_uuid'' [session, r] =
           (if is_session_valid E session
            then if is_str_and r (is_valid_dev E ''vif'')
                 then ([''<lambda>''], Inr (xen_api_success r))
                 else ([], Inr (failure XEND_ERROR_VIF_INVALID))
            else ([], Inr (failure XEND_ERROR_SESSION_INVALID)))
       \<and> (\<forall>name \<in> set [''session_get_by_uuid'', ''host_get_by_uuid'', ''host_cpu_get_by_uuid'',
                         ''vm_get_by_uuid'', ''vbd_get_by_uuid'', ''vif_get_by_uuid''].
             call_attr E st' name [session, r] =
               (if is_session_valid E session
                then ([''<lambda>''], Inr (xen_api_success r))
                else ([], Inr (failure XEND_ERROR_SESSION_INVALID)))))"
proof (intro conjI)
  have "\<exists>g_uuid g_by_uuid.
          attrs st' (lower cls @ ''_get_uuid'') = Some g_uuid
          \<and> attrs st' (lower cls @ ''_get_by_uuid'') = Some g_by_uuid
          \<and> g_uuid = set_api (apply_validators vs (Lambda None)) (cls @ ''.get_uuid'')
          \<and> g_by_uuid = set_api (session_required (Lambda None)) (cls @ ''.get_by_uuid'')
          \<and> (\<forall>E session r a.
                call E (Lambda a) [session, r] = ([''<lambda>''], Inr (xen_api_success r))
                \<and> call E g_by_uuid [session, r] =
                    (if is_session_valid E session
                     then ([''<lambda>''], Inr (xen_api_success r))
                     else ([], Inr (failure XEND_ERROR_SESSION_INVALID)))
                \<and> (\<not> is_session_valid E session \<longrightarrow>
                      call E g_uuid [session, r] =
                        ([], Inr (failure XEND_ERROR_SESSION_INVALID))))"
    if "(cls, vs) \<in> set classes" and "init st = Inr st'" for cls vs st st'
    using init_shortcuts [OF that] session_guard_outermost [OF that(1)]
    by (simp add: call_set_api call_session_required)
  then show "\<forall>(cls, validators) \<in> set classes.
     \<forall>st st'. init st = Inr st' \<longrightarrow>
       (\<exists>g_uuid g_by_uuid.
          attrs st' (lower cls @ ''_get_uuid'') = Some g_uuid
          \<and> attrs st' (lower cls @ ''_get_by_uuid'') = Some g_by_uuid
          \<and> g_uuid = set_api (apply_validators validators (Lambda None)) (cls @ ''.get_uuid'')
          \<and> g_by_uuid = set_api (session_required (Lambda None)) (cls @ ''.get_by_uuid'')
          \<and> (\<forall>E session r a.
                call E (Lambda a) [session, r] = ([''<lambda>''], Inr (xen_api_success r))
                \<and> call E g_by_uuid [session, r] =
                    (if is_session_valid E session
                     then ([''<lambda>''], Inr (xen_api_success r))
                     else ([], Inr (failure XEND_ERROR_SESSION_INVALID)))
                \<and> (\<not> is_session_valid E session \<longrightarrow>
                      call E g_uuid [session, r] =
                        ([], Inr (failure XEND_ERROR_SESSION_INVALID)))))"
    by blast
next
  show "\<forall>st st' E session r. init st = Inr st' \<longrightarrow>
         call_attr E st' ''session_get_uuid'' [session, r] =
           (if is_session_valid E session
            then ([''<lambda>''], Inr (xen_api_success r))
            else ([], Inr (failure XEND_ERROR_SESSION_INVALID)))
       \<and> call_attr E st' ''host_get_uuid'' [session, r] =
           (if is_session_valid E session
            then if is_str_and r (is_valid_host E)
                 then ([''<lambda>''], Inr (xen_api_success r))
                 else ([], Inr (failure XEND_ERROR_HOST_INVALID))
            else ([], Inr (failure XEND_ERROR_SESSION_INVALID)))
       \<and> call_attr E st' ''host_cpu_get_uuid'' [session, r] =
           (if is_session_valid E session
            then if is_str_and r (is_valid_cpu E)
                 then ([''<lambda>''], Inr (xen_api_success r))
                 else ([], Inr (failure XEND_ERROR_HOST_CPU_INVALID))
            else ([], Inr (failure XEND_ERROR_SESSION_INVALID)))
       \<and> call_attr E st' ''vm_get_uuid'' [session, r] =
           (if is_session_valid E session
            then if is_str_and r (is_valid_vm E)
                 then ([''<lambda>''], Inr (xen_api_success r))
                 else ([], Inr (failure XEND_ERROR_VM_INVALID))
            else ([], Inr (failure XEND_ERROR_SESSION_INVALID)))
       \<and> call_attr E st' ''vbd_get_uuid'' [session, r] =
           (if is_session_valid E session
            then if is_str_and r (is_valid_dev E ''vbd'')
                 then ([''<lambda>''], Inr (xen_api_success r))
                 else ([], Inr (failure XEND_ERROR_VBD_INVALID))
            else ([], Inr (failure XEND_ERROR_SESSION_INVALID)))
       \<and> call_attr E st' ''vif_get_uuid'' [session, r] =
           (if is_session_valid E session
            then if is_str_and r (is_valid_dev E ''vif'')
                 then ([''<lambda>''], Inr (xen_api_success r))
                 else ([], Inr (failure XEND_ERROR_VIF_INVALID))
            else ([], Inr (failure XEND_ERROR_SESSION_INVALID)))
       \<and> (\<forall>name \<in> set [''session_get_by_uuid'', ''host_get_by_uuid'', ''host_cpu_get_by_uuid'',
                         ''vm_get_by_uuid'', ''vbd_get_by_uuid'', ''vif_get_by_uuid''].
             call_attr E st' name [session, r] =
               (if is_session_valid E session
                then ([''<lambda>''], Inr (xen_api_success r))
                else ([], Inr (failure XEND_ERROR_SESSION_INVALID))))"
  proof (intro allI impI)
    fix st st' E session r
    assume st': "init st = Inr st'"
    note u = init_get_uuid [OF st'] and b = init_get_by_uuid [OF st']
    show "call_attr E st' ''session_get_uuid'' [session, r] =
           (if is_session_valid E session
            then ([''<lambda>''], Inr (xen_api_success r))
            else ([], Inr (failure XEND_ERROR_SESSION_INVALID)))
       \<and> call_attr E st' ''host_get_uuid'' [session, r] =
           (if is_session_valid E session
            then if is_str_and r (is_valid_host E)
                 then ([''<lambda>''], Inr (xen_api_success r))
                 else ([], Inr (failure XEND_ERROR_HOST_INVALID))
            else ([], Inr (failure XEND_ERROR_SESSION_INVALID)))
       \<and> call_attr E st' ''host_cpu_get_uuid'' [session, r] =
           (if is_session_valid E session
            then if is_str_and r (is_valid_cpu E)
                 then ([''<lambda>''], Inr (xen_api_success r))
                 else ([], Inr (failure XEND_ERROR_HOST_CPU_INVALID))
            else ([], Inr (failure XEND_ERROR_SESSION_INVALID)))
       \<and> call_attr E st' ''vm_get_uuid'' [session, r] =
           (if is_session_valid E session
            then if is_str_and r (is_valid_vm E)
                 then ([''<lambda>''], Inr (xen_api_success r))
                 else ([], Inr (failure XEND_ERROR_VM_INVALID))
            else ([], Inr (failure XEND_ERROR_SESSION_INVALID)))
       \<and> call_attr E st' ''vbd_get_uuid'' [session, r] =
           (if is_session_valid E session
            then if is_str_and r (is_valid_dev E ''vbd'')
                 then ([''<lambda>''], Inr (xen_api_success r))
                 else ([], Inr (failure XEND_ERROR_VBD_INVALID))
            else ([], Inr (failure XEND_ERROR_SESSION_INVALID)))
       \<and> call_attr E st' ''vif_get_uuid'' [session, r] =
           (if is_session_valid E session
            then if is_str_and r (is_valid_dev E ''vif'')
                 then ([''<lambda>''], Inr (xen_api_success r))
                 else ([], Inr (failure XEND_ERROR_VIF_INVALID))
            else ([], Inr (failure XEND_ERROR_SESSION_INVALID)))
       \<and> (\<forall>name \<in> set [''session_get_by_uuid'', ''host_get_by_uuid'', ''host_cpu_get_by_uuid'',
                         ''vm_get_by_uuid'', ''vbd_get_by_uuid'', ''vif_get_by_uuid''].
             call_attr E st' name [session, r] =
               (if is_session_valid E session
                then ([''<lambda>''], Inr (xen_api_success r))
                else ([], Inr (failure XEND_ERROR_SESSION_INVALID))))"
      by (simp add: call_attr_Some u b)
  qed
qed


theorem identity_shortcuts_guarded_witness:
  "attrs constructed ''host_get_uuid'' =
     Some (Closure check_session (Closure check_host_ref (Lambda None) None)
             (Some ''Host.get_uuid''))
   \<and> attrs constructed ''host_get_by_uuid'' =
     Some (Closure check_session (Lambda None) (Some ''Host.get_by_uuid''))
   \<and> call_attr allow_all constructed ''host_get_by_uuid'' [Str ''session'', Str ''ref''] =
       ([''<lambda>''], Inr (xen_api_success (Str ''ref'')))
   \<and> call_attr deny_all constructed ''host_get_uuid'' [Str ''session'', Str ''ref''] =
       ([], Inr (failure XEND_ERROR_SESSION_INVALID))
   \<and> call_attr (deny_all\<lparr>is_session_valid := \<lambda>s. True\<rparr>) constructed ''host_get_uuid''
         [Str ''session'', Str ''ref''] =
       ([], Inr (failure XEND_ERROR_HOST_INVALID))
   \<and> call_attr allow_all constructed ''host_get_uuid'' [Str ''session'', Str ''ref''] =
       ([''<lambda>''], Inr (xen_api_success (Str ''ref'')))"
proof -
  note main = identity_shortcuts_guarded
  from main Host_in_classes
  have "\<forall>st st'. init st = Inr st' \<longrightarrow>
       (\<exists>g_uuid g_by_uuid.
          attrs st' (lower ''Host'' @ ''_get_uuid'') = Some g_uuid
          \<and> attrs st' (lower ''Host'' @ ''_get_by_uuid'') = Some g_by_uuid
          \<and> g_uuid = set_api (apply_validators [valid_host, session_required] (Lambda None))
                       (''Host'' @ ''.get_uuid'')
          \<and> g_by_uuid = set_api (session_required (Lambda None)) (''Host'' @ ''.get_by_uuid'')
          \<and> (\<forall>E session r a.
                call E (Lambda a) [session, r] = ([''<lambda>''], Inr (xen_api_success r))
                \<and> call E g_by_uuid [session, r] =
                    (if is_session_valid E session
                     then ([''<lambda>''], Inr (xen_api_success r))
                     else ([], Inr (failure XEND_ERROR_SESSION_INVALID)))
                \<and> (\<not> is_session_valid E session \<longrightarrow>
                      call E g_uuid [session, r] =
                        ([], Inr (failure XEND_ERROR_SESSION_INVALID)))))"
    by fast
  from this [rule_format, OF init_constructed]
  have shape: "attrs constructed ''host_get_uuid'' =
       Some (Closure check_session (Closure check_host_ref (Lambda None) None)
               (Some ''Host.get_uuid''))
     \<and> attrs constructed ''host_get_by_uuid'' =
       Some (Closure check_session (Lambda None) (Some ''Host.get_by_uuid''))"
    by (auto simp: lower_simps apply_validators_def valid_host_def session_required_def)
  from main have calls: "\<And>E session r.
      call_attr E constructed ''host_get_uuid'' [session, r] =
           (if is_session_valid E session
            then if is_str_and r (is_valid_host E)
                 then ([''<lambda>''], Inr (xen_api_success r))
                 else ([], Inr (failure XEND_ERROR_HOST_INVALID))
            else ([], Inr (failure XEND_ERROR_SESSION_INVALID)))"
    "\<And>E session r.
      call_attr E constructed ''host_get_by_uuid'' [session, r] =
               (if is_session_valid E session
                then ([''<lambda>''], Inr (xen_api_success r))
                else ([], Inr (failure XEND_ERROR_SESSION_INVALID)))"
    using init_constructed by simp_all
  show ?thesis
    using shape
    by (simp add: calls allow_all_def deny_all_def)
qed

section \<open>The uuid of a host CPU\<close>

lemma init_host_cpu_get_uuid:
  "init st = Inr st' \<Longrightarrow>
   attrs st' ''host_cpu_get_uuid'' =
     Some (Closure check_session (Closure check_host_cpu_ref (Lambda None) None)
             (Some ''Host_CPU.get_uuid''))"
  using init_shortcuts(1) [OF Host_CPU_in_classes, of st st']
  by (simp add: lower_simps apply_validators_def valid_host_cpu_def session_required_def)

lemma call_guarded_lambda:
  "call E (Closure check_session (Closure check_host_cpu_ref (Lambda None) None) tag) [session, r] =
     (if is_session_valid E session
      then if is_str_and r (is_valid_cpu E)
           then ([''<lambda>''], Inr (xen_api_success r))
           else ([], Inr (failure XEND_ERROR_HOST_CPU_INVALID))
      else ([], Inr (failure XEND_ERROR_SESSION_INVALID)))"
  by simp

text \<open>
  Claim C9, as stated, fails. After construction a call of \<^verbatim>\<open>host_cpu_get_uuid\<close> with a
  session that is not valid returns the session-invalid envelope, and with a valid
  session its result depends on what the node registry answers to \<^verbatim>\<open>is_valid_cpu\<close>: the
  host-cpu-invalid envelope when the registry does not know the reference, success of
  the reference when it does.
\<close>

theorem host_cpu_get_uuid_unguarded_counterexample:
  "XendAPI_class ''host_cpu_get_uuid'' = Some (Def ''host_cpu_get_uuid'' None)
   \<and> init XendAPI_initial = Inr constructed
   \<and> call_attr deny_all constructed ''host_cpu_get_uuid'' [Str ''session'', Str ''cpu0''] =
       ([], Inr (failure XEND_ERROR_SESSION_INVALID))
   \<and> call_attr (deny_all\<lparr>is_session_valid := \<lambda>s. True\<rparr>) constructed ''host_cpu_get_uuid''
         [Str ''session'', Str ''cpu0''] =
       ([], Inr (failure XEND_ERROR_HOST_CPU_INVALID))
   \<and> call_attr (deny_all\<lparr>is_session_valid := \<lambda>s. True, is_valid_cpu := \<lambda>r. True\<rparr>) constructed
         ''host_cpu_get_uuid'' [Str ''session'', Str ''cpu0''] =
       ([''<lambda>''], Inr (xen_api_success (Str ''cpu0'')))"
  using init_host_cpu_get_uuid [OF init_constructed]
  by (simp add: init_constructed call_attr_Some XendAPI_class_lookups deny_all_def)

text \<open>
  Claim C9, amended. The class body defines \<^verbatim>\<open>host_cpu_get_uuid\<close> as a method that
  returns the uuid that the node registry gives for the reference. Construction replaces
  it by the identity function of the first loop, wrapped in the guard chain of Host_CPU.
  After construction the operation returns success of the reference argument itself when
  the session is valid and the node registry knows the reference as a CPU, and the
  failing guard's envelope otherwise; the hand-written method is not called and the
  registry is not asked for the uuid.
\<close>

theorem host_cpu_get_uuid_overwritten:
  "XendAPI_class ''host_cpu_get_uuid'' = Some (Def ''host_cpu_get_uuid'' None)
   \<and> call E (Def ''host_cpu_get_uuid'' None) [session, r] =
       ([''host_cpu_get_uuid''],
        case get_host_cpu_uuid E r of Inl e \<Rightarrow> Inl e | Inr uuid \<Rightarrow> Inr (xen_api_success uuid))
   \<and> (init st = Inr st' \<longrightarrow>
        attrs st' ''host_cpu_get_uuid'' =
          Some (Closure check_session (Closure check_host_cpu_ref (Lambda None) None)
                  (Some ''Host_CPU.get_uuid''))
        \<and> call_attr E st' ''host_cpu_get_uuid'' [session, r] =
            (if is_session_valid E session
             then if is_str_and r (is_valid_cpu E)
                  then ([''<lambda>''], Inr (xen_api_success r))
                  else ([], Inr (failure XEND_ERROR_HOST_CPU_INVALID))
             else ([], Inr (failure XEND_ERROR_SESSION_INVALID))))"
proof (intro conjI impI)
  show "XendAPI_class ''host_cpu_get_uuid'' = Some (Def ''host_cpu_get_uuid'' None)"
    by (rule XendAPI_class_lookups)
  show "call E (Def ''host_cpu_get_uuid'' None) [session, r] =
       ([''host_cpu_get_uuid''],
        case get_host_cpu_uuid E r of Inl e \<Rightarrow> Inl e | Inr uuid \<Rightarrow> Inr (xen_api_success uuid))"
    by (simp add: XendAPI_method_def host_cpu_get_uuid_def)
next
  assume st': "init st = Inr st'"
  show "attrs st' ''host_cpu_get_uuid'' =
          Some (Closure check_session (Closure check_host_cpu_ref (Lambda None) None)
                  (Some ''Host_CPU.get_uuid''))"
    by (rule init_host_cpu_get_uuid [OF st'])
  then show "call_attr E st' ''host_cpu_get_uuid'' [session, r] =
            (if is_session_valid E session
             then if is_str_and r (is_valid_cpu E)
                  then ([''<lambda>''], Inr (xen_api_success r))
                  else ([], Inr (failure XEND_ERROR_HOST_CPU_INVALID))
             else ([], Inr (failure XEND_ERROR_SESSION_INVALID)))"
    by (simp only: call_attr_Some call_guarded_lambda)
qed

theorem host_cpu_get_uuid_overwritten_witness:
  "call allow_all (Def ''host_cpu_get_uuid'' None) [Str ''session'', Str ''cpu0''] =
     ([''host_cpu_get_uuid''], Inr (xen_api_success (Str ''uuid-of-cpu'')))
   \<and> call_attr allow_all constructed ''host_cpu_get_uuid'' [Str ''session'', Str ''cpu0''] =
     ([''<lambda>''], Inr (xen_api_success (Str ''cpu0'')))"
  using host_cpu_get_uuid_overwritten
    [of allow_all "Str ''session''" "Str ''cpu0''" XendAPI_initial constructed]
    init_constructed
  by (simp add: allow_all_def)

section \<open>Order of the guards\<close>

lemma apply_validators_snoc:
  "apply_validators (validators @ [validator]) f = validator (apply_validators validators f)"
  by (simp add: apply_validators_def)

lemma folded_in_order_op:
  assumes "install_cheats classes st = Inr st1" and "init st = Inr st'"
    and "(n, apply_validators validators, tag) \<in> set all_ops"
  shows "folded_in_order st1 st' n validators tag"
  using init_op(1) [OF assms]
  by (auto simp: folded_in_order_def apply_validators_snoc call_attr_Some call_set_api)

lemma host_guarded_op:
  assumes "install_cheats classes st = Inr st1" and "init st = Inr st'"
    and "(n, apply_validators [valid_host, session_required], tag) \<in> set all_ops"
  shows "host_guarded st1 st' n tag"
  using init_op(1) [OF assms]
  by (auto simp: host_guarded_def apply_validators_def valid_host_def session_required_def
      call_attr_Some)

text \<open>
  Claim C2. The validators are applied in the order of the tuple, each to the result of
  the one before, so the last-listed is the outermost function and runs first. The
  constructor installs exactly that: for every class of \<open>classes\<close> and every declared
  attribute and method whose handler \<open>f\<close> resolves, the attribute is bound to the tagged
  result of folding the class's validators over \<open>f\<close>; when the tuple ends with \<open>B\<close> the
  installed function is \<open>B\<close> around the rest of the chain, and whenever \<open>B\<close> answers a
  call by itself, whatever it wraps, a call of the installed attribute gives that answer.
  For Host, declared with \<^verbatim>\<open>(valid_host, session_required)\<close>, every installed getter,
  setter and method is the session check around the host check around the handler, and
  a call with an invalid session and an invalid host reference returns the
  session-invalid envelope, which differs from the host-invalid envelope that
  \<^verbatim>\<open>valid_host\<close> alone would return.
\<close>

theorem guard_order:
  "apply_validators (validators @ [validator]) f = validator (apply_validators validators f)
   \<and> apply_validators [A, B] f = B (A f)
   \<and> ((\<forall>g. call E (B g) args = answer) \<longrightarrow>
        call E (set_api (apply_validators [A, B] f) tag) args = answer)
   \<and> (''Host'', [valid_host, session_required]) \<in> set classes
   \<and> (\<not> is_session_valid E session \<and> \<not> is_str_and host_ref (is_valid_host E) \<longrightarrow>
        call E (set_api (apply_validators [valid_host, session_required] f) tag)
          (session # host_ref # rest) = ([], Inr (failure XEND_ERROR_SESSION_INVALID))
        \<and> call E (valid_host f) (session # host_ref # rest) =
            ([], Inr (failure XEND_ERROR_HOST_INVALID))
        \<and> failure XEND_ERROR_SESSION_INVALID \<noteq> failure XEND_ERROR_HOST_INVALID)
   \<and> (install_cheats classes st = Inr st1 \<and> init st = Inr st' \<longrightarrow>
        (\<forall>(cls, validators) \<in> set classes.
           (\<forall>attr_name \<in> set (getattr_list (cls @ ''_attr_ro'')
                                @ getattr_list (cls @ ''_attr_rw'') @ Base_attr_ro).
              folded_in_order st1 st' (lower cls @ ''_get_'' @ lower attr_name) validators
                (cls @ ''.get_'' @ attr_name))
         \<and> (\<forall>attr_name \<in> set (getattr_list (cls @ ''_attr_rw'') @ Base_attr_rw).
              folded_in_order st1 st' (lower cls @ ''_set_'' @ lower attr_name) validators
                (cls @ ''.set_'' @ attr_name))
         \<and> (\<forall>method_name \<in> set (getattr_list (cls @ ''_methods'') @ Base_methods).
              folded_in_order st1 st' (lower cls @ ''_'' @ lower method_name) validators
                (cls @ ''.'' @ method_name)))
        \<and> (\<forall>attr_name \<in> set (getattr_list ''Host_attr_ro'' @ getattr_list ''Host_attr_rw''
                               @ Base_attr_ro).
              host_guarded st1 st' (''host_get_'' @ lower attr_name) (''Host.get_'' @ attr_name))
        \<and> (\<forall>attr_name \<in> set (getattr_list ''Host_attr_rw'' @ Base_attr_rw).
              host_guarded st1 st' (''host_set_'' @ lower attr_name) (''Host.set_'' @ attr_name))
        \<and> (\<forall>method_name \<in> set (getattr_list ''Host_methods'' @ Base_methods).
              host_guarded st1 st' (''host_'' @ lower method_name) (''Host.'' @ method_name)))"
proof -
  have "failure XEND_ERROR_SESSION_INVALID ''ErrorDescription''
        \<noteq> failure XEND_ERROR_HOST_INVALID ''ErrorDescription''"
    by (simp add: failure_def)
  then have "failure XEND_ERROR_SESSION_INVALID \<noteq> failure XEND_ERROR_HOST_INVALID"
    by metis
  then have old: "apply_validators (validators @ [validator]) f = validator (apply_validators validators f)
   \<and> apply_validators [A, B] f = B (A f)
   \<and> ((\<forall>g. call E (B g) args = answer) \<longrightarrow>
        call E (set_api (apply_validators [A, B] f) tag) args = answer)
   \<and> (''Host'', [valid_host, session_required]) \<in> set classes
   \<and> (\<not> is_session_valid E session \<and> \<not> is_str_and host_ref (is_valid_host E) \<longrightarrow>
        call E (set_api (apply_validators [valid_host, session_required] f) tag)
          (session # host_ref # rest) = ([], Inr (failure XEND_ERROR_SESSION_INVALID))
        \<and> call E (valid_host f) (session # host_ref # rest) =
            ([], Inr (failure XEND_ERROR_HOST_INVALID))
        \<and> failure XEND_ERROR_SESSION_INVALID \<noteq> failure XEND_ERROR_HOST_INVALID)"
    by (simp add: apply_validators_def call_set_api call_session_required
        call_reference_guards classes_def)
  have new: "(\<forall>(cls, validators) \<in> set classes.
           (\<forall>attr_name \<in> set (getattr_list (cls @ ''_attr_ro'')
                                @ getattr_list (cls @ ''_attr_rw'') @ Base_attr_ro).
              folded_in_order st1 st' (lower cls @ ''_get_'' @ lower attr_name) validators
                (cls @ ''.get_'' @ attr_name))
         \<and> (\<forall>attr_name \<in> set (getattr_list (cls @ ''_attr_rw'') @ Base_attr_rw).
              folded_in_order st1 st' (lower cls @ ''_set_'' @ lower attr_name) validators
                (cls @ ''.set_'' @ attr_name))
         \<and> (\<forall>method_name \<in> set (getattr_list (cls @ ''_methods'') @ Base_methods).
              folded_in_order st1 st' (lower cls @ ''_'' @ lower method_name) validators
                (cls @ ''.'' @ method_name)))
        \<and> (\<forall>attr_name \<in> set (getattr_list ''Host_attr_ro'' @ getattr_list ''Host_attr_rw''
                               @ Base_attr_ro).
              host_guarded st1 st' (''host_get_'' @ lower attr_name) (''Host.get_'' @ attr_name))
        \<and> (\<forall>attr_name \<in> set (getattr_list ''Host_attr_rw'' @ Base_attr_rw).
              host_guarded st1 st' (''host_set_'' @ lower attr_name) (''Host.set_'' @ attr_name))
        \<and> (\<forall>method_name \<in> set (getattr_list ''Host_methods'' @ Base_methods).
              host_guarded st1 st' (''host_'' @ lower method_name) (''Host.'' @ method_name))"
    if st1: "install_cheats classes st = Inr st1" and st': "init st = Inr st'"
  proof -
    note fo = folded_in_order_op [OF st1 st'] and hg = host_guarded_op [OF st1 st']
    have g: "folded_in_order st1 st' (lower cls @ ''_get_'' @ lower a) vs (cls @ ''.get_'' @ a)"
      if "(cls, vs) \<in> set classes" and "a \<in> set (getter_attrs cls)" for cls vs a
      using getter_op_all_ops [OF that] by (intro fo) (simp add: getter_op_def)
    have s: "folded_in_order st1 st' (lower cls @ ''_set_'' @ lower a) vs (cls @ ''.set_'' @ a)"
      if "(cls, vs) \<in> set classes" and "a \<in> set (setter_attrs cls)" for cls vs a
      using setter_op_all_ops [OF that] by (intro fo) (simp add: setter_op_def)
    have m: "folded_in_order st1 st' (lower cls @ ''_'' @ lower a) vs (cls @ ''.'' @ a)"
      if "(cls, vs) \<in> set classes" and "a \<in> set (method_names cls)" for cls vs a
      using method_op_all_ops [OF that] by (intro fo) (simp add: method_op_def)
    have hgg: "host_guarded st1 st' (''host_get_'' @ lower a) (''Host.get_'' @ a)"
      if "a \<in> set (getter_attrs ''Host'')" for a
      using getter_op_all_ops [OF Host_in_classes that]
      by (intro hg) (simp add: getter_op_def lower_simps)
    have hgs: "host_guarded st1 st' (''host_set_'' @ lower a) (''Host.set_'' @ a)"
      if "a \<in> set (setter_attrs ''Host'')" for a
      using setter_op_all_ops [OF Host_in_classes that]
      by (intro hg) (simp add: setter_op_def lower_simps)
    have hgm: "host_guarded st1 st' (''host_'' @ lower a) (''Host.'' @ a)"
      if "a \<in> set (method_names ''Host'')" for a
      using method_op_all_ops [OF Host_in_classes that]
      by (intro hg) (simp add: method_op_def lower_simps)
    have "(\<forall>(cls, validators) \<in> set classes.
           (\<forall>a \<in> set (getter_attrs cls).
              folded_in_order st1 st' (lower cls @ ''_get_'' @ lower a) validators
                (cls @ ''.get_'' @ a))
         \<and> (\<forall>a \<in> set (setter_attrs cls).
              folded_in_order st1 st' (lower cls @ ''_set_'' @ lower a) validators
                (cls @ ''.set_'' @ a))
         \<and> (\<forall>a \<in> set (method_names cls).
              folded_in_order st1 st' (lower cls @ ''_'' @ lower a) validators
                (cls @ ''.'' @ a)))
        \<and> (\<forall>a \<in> set (getter_attrs ''Host'').
              host_guarded st1 st' (''host_get_'' @ lower a) (''Host.get_'' @ a))
        \<and> (\<forall>a \<in> set (setter_attrs ''Host'').
              host_guarded st1 st' (''host_set_'' @ lower a) (''Host.set_'' @ a))
        \<and> (\<forall>a \<in> set (method_names ''Host'').
              host_guarded st1 st' (''host_'' @ lower a) (''Host.'' @ a))"
      using g s m hgg hgs hgm by blast
    then show ?thesis
      unfolding getter_attrs_def setter_attrs_def method_names_def
      by simp
  qed
  from old new show ?thesis
    by blast
qed


theorem guard_order_witness:
  "call deny_all (set_api (apply_validators [valid_host, session_required]
      (Def ''host_get_name_label'' None)) ''Host.get_name_label'') [Str ''s'', Str ''h'']
     = ([], Inr (failure XEND_ERROR_SESSION_INVALID))
   \<and> call deny_all (valid_host (Def ''host_get_name_label'' None)) [Str ''s'', Str ''h'']
     = ([], Inr (failure XEND_ERROR_HOST_INVALID))
   \<and> attrs constructed ''host_get_name_label'' =
       Some (Closure check_session (Closure check_host_ref (Def ''host_get_name_label'' None) None)
               (Some ''Host.get_name_label''))
   \<and> call_attr deny_all constructed ''host_get_name_label'' [Str ''s'', Str ''h''] =
       ([], Inr (failure XEND_ERROR_SESSION_INVALID))"
proof -
  obtain c0 where c0: "install_cheats classes XendAPI_initial = Inr c0"
    using init_total by blast
  note main = guard_order [where validators = "[]" and validator = valid_host
      and f = "Def ''host_get_name_label'' None" and A = valid_host and B = session_required
      and E = deny_all and args = "[Str ''s'', Str ''h'']"
      and answer = "([], Inr (failure XEND_ERROR_SESSION_INVALID))"
      and tag = "''Host.get_name_label''" and session = "Str ''s''" and host_ref = "Str ''h''"
      and rest = "[]" and st = XendAPI_initial and ?st1.0 = c0 and st' = constructed]
  from main have old:
    "call deny_all (set_api (apply_validators [valid_host, session_required]
        (Def ''host_get_name_label'' None)) ''Host.get_name_label'') [Str ''s'', Str ''h'']
       = ([], Inr (failure XEND_ERROR_SESSION_INVALID))
     \<and> call deny_all (valid_host (Def ''host_get_name_label'' None)) [Str ''s'', Str ''h'']
       = ([], Inr (failure XEND_ERROR_HOST_INVALID))"
    by (simp add: deny_all_def apply_validators_def)
  from main c0 init_constructed
  have getters: "\<forall>attr_name \<in> set (getattr_list ''Host_attr_ro'' @ getattr_list ''Host_attr_rw''
        @ Base_attr_ro).
      host_guarded c0 constructed (''host_get_'' @ lower attr_name) (''Host.get_'' @ attr_name)"
    by blast
  have "host_guarded c0 constructed ''host_get_name_label'' ''Host.get_name_label''"
    using getters [THEN bspec, of "''name_label''"]
    by (simp add: getattr_list_classes Host_attr_rw_def lower_simps)
  moreover have "attrs c0 ''host_get_name_label'' = Some (Def ''host_get_name_label'' None)"
    by (simp add: cheats_initial [OF c0] cheat_names_eq XendAPI_class_lookups)
  ultimately have "attrs constructed ''host_get_name_label'' =
       Some (Closure check_session (Closure check_host_ref (Def ''host_get_name_label'' None) None)
               (Some ''Host.get_name_label''))
     \<and> call_attr deny_all constructed ''host_get_name_label'' [Str ''s'', Str ''h''] =
       ([], Inr (failure XEND_ERROR_SESSION_INVALID))"
    by (simp add: host_guarded_def deny_all_def)
  with old show ?thesis
    by blast
qed

section \<open>Constructing twice\<close>

lemma init_constructed_twice: "init constructed = Inr constructed_twice"
  by (simp add: constructed_twice_def init_fold)

lemma deco_chain:
  "(n, deco, tag) \<in> set all_ops \<Longrightarrow> checks (deco x) = checks (deco (Lambda None)) @ checks x"
  by (auto simp: all_ops_def classes_def class_ops_def getter_op_def setter_op_def
      method_op_def func_op_def apply_validators_def valid_host_def valid_host_cpu_def
      valid_vm_def valid_vbd_def valid_vif_def session_required_def)

lemma deco_chain_nonempty: "(n, deco, tag) \<in> set all_ops \<Longrightarrow> checks (deco (Lambda None)) \<noteq> []"
  by (auto simp: all_ops_def classes_def class_ops_def getter_op_def setter_op_def
      method_op_def func_op_def apply_validators_def valid_host_def valid_host_cpu_def
      valid_vm_def valid_vbd_def valid_vif_def session_required_def)

lemma rewrapped_op:
  assumes st1: "init XendAPI_initial = Inr st1" and st2: "init st1 = Inr st2"
    and op: "op \<in> set all_ops"
  shows "rewrapped st1 st2 op"
proof (cases op)
  case (fields n deco tag)
  then have mem: "(n, deco, tag) \<in> set all_ops"
    using op by simp
  obtain c0 where c0: "install_cheats classes XendAPI_initial = Inr c0"
    using init_total by blast
  obtain c1 where c1: "install_cheats classes st1 = Inr c1"
    using init_total by blast
  have a1: "attrs st1 n = map_option (\<lambda>f. set_api (deco f) tag) (attrs c0 n)"
    by (rule init_op(1) [OF c0 st1 mem])
  have a2: "attrs st2 n = map_option (\<lambda>f. set_api (deco f) tag) (attrs c1 n)"
    by (rule init_op(1) [OF c1 st2 mem])
  have c1n: "attrs c1 n = (if n \<in> set cheat_names then Some (Lambda None) else attrs st1 n)"
    using c1 by (auto simp: install_cheats_fold attrs_cheats)
  have c0n: "attrs c0 n = (if n \<in> set cheat_names then Some (Lambda None) else XendAPI_class n)"
    by (rule cheats_initial [OF c0])
  show ?thesis
  proof (cases "attrs c0 n")
    case None
    then show ?thesis
      using a1 a2 c1n c0n fields by (auto simp: rewrapped_def split: if_splits)
  next
    case (Some f0)
    then have plain: "checks f0 = []"
      by (rule cheats_initial_plain [OF c0])
    have chk: "checks (set_api (deco f0) tag) = checks (deco (Lambda None))"
      using deco_chain [OF mem, of f0] plain by (simp add: checks_set_api)
    have g1: "attrs st1 n = Some (set_api (deco f0) tag)"
      using a1 Some by simp
    show ?thesis
    proof (cases "n \<in> set cheat_names")
      case True
      then have "f0 = Lambda None"
        using c0n Some by simp
      then have "attrs st2 n = Some (set_api (deco f0) tag)"
        using a2 c1n True by simp
      then show ?thesis
        using g1 chk True fields by (simp add: rewrapped_def)
    next
      case False
      then have "attrs st2 n = Some (set_api (deco (set_api (deco f0) tag)) tag)"
        using a2 c1n g1 by simp
      then show ?thesis
        using g1 chk False fields by (simp add: rewrapped_def)
    qed
  qed
qed

lemma name_label_in_getter_attrs: "''name_label'' \<in> set (getter_attrs ''Host'')"
  by (simp add: getter_attrs_def getattr_list_classes Host_attr_rw_def)

lemma host_get_name_label_op:
  "(''host_get_name_label'', apply_validators [valid_host, session_required],
    ''Host.get_name_label'') \<in> set all_ops"
  using getter_op_all_ops [OF Host_in_classes name_label_in_getter_attrs]
  by (simp add: getter_op_def lower_simps)

lemma host_get_name_label_once:
  "init XendAPI_initial = Inr st1 \<Longrightarrow>
   attrs st1 ''host_get_name_label'' =
     Some (Closure check_session (Closure check_host_ref (Def ''host_get_name_label'' None) None)
             (Some ''Host.get_name_label''))"
proof -
  assume st1: "init XendAPI_initial = Inr st1"
  obtain c0 where c0: "install_cheats classes XendAPI_initial = Inr c0"
    using init_total by blast
  show ?thesis
    using init_op(1) [OF c0 st1 host_get_name_label_op]
    by (simp add: cheats_initial [OF c0] cheat_names_eq XendAPI_class_lookups
        apply_validators_def valid_host_def session_required_def)
qed

lemma host_get_name_label_twice:
  assumes "init XendAPI_initial = Inr st1" and "init st1 = Inr st2"
  shows "attrs st2 ''host_get_name_label'' =
     Some (Closure check_session (Closure check_host_ref
        (Closure check_session (Closure check_host_ref (Def ''host_get_name_label'' None) None)
             (Some ''Host.get_name_label''))
        (Some ''Host.get_name_label'')) (Some ''Host.get_name_label''))"
  using rewrapped_op [OF assms host_get_name_label_op] host_get_name_label_once [OF assms(1)]
  by (simp add: rewrapped_def cheat_names_eq apply_validators_def valid_host_def
      session_required_def)

text \<open>
  Claim C10, as stated, fails for the attributes that the first loop installs.
  \<^verbatim>\<open>uuid\<close> is a declared read-only attribute of Host, and after the first construction
  \<^verbatim>\<open>host_get_uuid\<close> is guarded by the session check and the host check. The second
  construction first replaces it by a fresh identity function and then wraps that once,
  so the attribute ends exactly as it was after the first construction, with one copy of
  the guard chain and not two.
\<close>

theorem second_construction_counterexample:
  "''uuid'' \<in> set (getattr_list (''Host'' @ ''_attr_ro'') @ getattr_list (''Host'' @ ''_attr_rw'')
                    @ Base_attr_ro)
   \<and> init XendAPI_initial = Inr constructed
   \<and> init constructed = Inr constructed_twice
   \<and> attrs constructed ''host_get_uuid'' =
       Some (Closure check_session (Closure check_host_ref (Lambda None) None)
               (Some ''Host.get_uuid''))
   \<and> map_option checks (attrs constructed ''host_get_uuid'') =
       Some [check_session, check_host_ref]
   \<and> attrs constructed_twice ''host_get_uuid'' = attrs constructed ''host_get_uuid''
   \<and> map_option checks (attrs constructed_twice ''host_get_uuid'') =
       Some [check_session, check_host_ref]"
  by (simp add: init_constructed init_constructed_twice Base_attr_ro_def
      init_get_uuid(2) [OF init_constructed] init_get_uuid(2) [OF init_constructed_twice])

text \<open>
  Claim C10, amended. Construction is not idempotent. Let \<open>st1\<close> be the class after the
  first construction and \<open>st2\<close> after a second one. They differ. For every class of
  \<open>classes\<close> and every declared attribute, method and function whose handler resolves:
  after the first construction the handler carries the checks of its decoration exactly
  once; the second construction finds that guarded function under the name and decorates
  and tags it again, except for the twelve \<^verbatim>\<open>get_uuid\<close> and \<^verbatim>\<open>get_by_uuid\<close> attributes,
  which the first loop installs afresh before the wrapping and which end as they were
  after the first construction.
\<close>

theorem construction_not_idempotent:
  assumes "init XendAPI_initial = Inr st1" and "init st1 = Inr st2"
  shows "st2 \<noteq> st1
   \<and> (\<forall>(cls, validators) \<in> set classes.
        (\<forall>attr_name \<in> set (getattr_list (cls @ ''_attr_ro'') @ getattr_list (cls @ ''_attr_rw'')
                             @ Base_attr_ro).
           rewrapped st1 st2
             (lower cls @ ''_get_'' @ lower attr_name, apply_validators validators,
              cls @ ''.get_'' @ attr_name))
      \<and> (\<forall>attr_name \<in> set (getattr_list (cls @ ''_attr_rw'') @ Base_attr_rw).
           rewrapped st1 st2
             (lower cls @ ''_set_'' @ lower attr_name, apply_validators validators,
              cls @ ''.set_'' @ attr_name))
      \<and> (\<forall>method_name \<in> set (getattr_list (cls @ ''_methods'') @ Base_methods).
           rewrapped st1 st2
             (lower cls @ ''_'' @ lower method_name, apply_validators validators,
              cls @ ''.'' @ method_name))
      \<and> (\<forall>func_name \<in> set (getattr_list (cls @ ''_funcs'') @ Base_funcs).
           rewrapped st1 st2
             (lower cls @ ''_'' @ lower func_name, session_required, cls @ ''.'' @ func_name)))"
proof -
  note rw = rewrapped_op [OF assms]
  have "attrs st2 ''host_get_name_label'' \<noteq> attrs st1 ''host_get_name_label''"
    by (simp add: host_get_name_label_once [OF assms(1)] host_get_name_label_twice [OF assms])
  then have neq: "st2 \<noteq> st1"
    by auto
  have "rewrapped st1 st2 (getter_op cls vs a)"
    if "(cls, vs) \<in> set classes" and "a \<in> set (getter_attrs cls)" for cls vs a
    using that by (intro rw getter_op_all_ops)
  moreover have "rewrapped st1 st2 (setter_op cls vs a)"
    if "(cls, vs) \<in> set classes" and "a \<in> set (setter_attrs cls)" for cls vs a
    using that by (intro rw setter_op_all_ops)
  moreover have "rewrapped st1 st2 (method_op cls vs m)"
    if "(cls, vs) \<in> set classes" and "m \<in> set (method_names cls)" for cls vs m
    using that by (intro rw method_op_all_ops)
  moreover have "rewrapped st1 st2 (func_op cls fn)"
    if "(cls, vs) \<in> set classes" and "fn \<in> set (func_names cls)" for cls vs fn
    using that by (intro rw func_op_all_ops)
  ultimately have
    "\<forall>(cls, validators) \<in> set classes.
        (\<forall>a \<in> set (getter_attrs cls). rewrapped st1 st2 (getter_op cls validators a))
      \<and> (\<forall>a \<in> set (setter_attrs cls). rewrapped st1 st2 (setter_op cls validators a))
      \<and> (\<forall>m \<in> set (method_names cls). rewrapped st1 st2 (method_op cls validators m))
      \<and> (\<forall>fn \<in> set (func_names cls). rewrapped st1 st2 (func_op cls fn))"
    by blast
  then show ?thesis
    using neq
    unfolding getter_attrs_def setter_attrs_def method_names_def func_names_def
      getter_op_def setter_op_def method_op_def func_op_def
    by blast
qed

theorem construction_not_idempotent_witness:
  "init XendAPI_initial = Inr constructed
   \<and> init constructed = Inr constructed_twice
   \<and> constructed_twice \<noteq> constructed
   \<and> map_option checks (attrs constructed ''host_get_name_label'') =
       Some [check_session, check_host_ref]
   \<and> map_option checks (attrs constructed_twice ''host_get_name_label'') =
       Some [check_session, check_host_ref, check_session, check_host_ref]
   \<and> attrs constructed_twice ''host_get_uuid'' = attrs constructed ''host_get_uuid''"
proof -
  note main = construction_not_idempotent [OF init_constructed init_constructed_twice]
  from main have neq: "constructed_twice \<noteq> constructed"
    by blast
  from main Host_in_classes
  have getters: "\<forall>attr_name \<in> set (getattr_list (''Host'' @ ''_attr_ro'')
        @ getattr_list (''Host'' @ ''_attr_rw'') @ Base_attr_ro).
      rewrapped constructed constructed_twice
        (lower ''Host'' @ ''_get_'' @ lower attr_name,
         apply_validators [valid_host, session_required], ''Host'' @ ''.get_'' @ attr_name)"
    by fast
  have label: "rewrapped constructed constructed_twice
      (''host_get_name_label'', apply_validators [valid_host, session_required],
       ''Host.get_name_label'')"
    using getters [THEN bspec, of "''name_label''"]
    by (simp add: getattr_list_classes Host_attr_rw_def lower_simps)
  have uuid: "rewrapped constructed constructed_twice
      (''host_get_uuid'', apply_validators [valid_host, session_required], ''Host.get_uuid'')"
    using getters [THEN bspec, of "''uuid''"]
    by (simp add: Base_attr_ro_def lower_simps)
  have u1: "attrs constructed ''host_get_uuid'' =
      Some (set_api (apply_validators [valid_host, session_required] (Lambda None))
              ''Host.get_uuid'')"
    using init_shortcuts(1) [OF Host_in_classes init_constructed] by (simp add: lower_simps)
  show ?thesis
    using neq label uuid u1 host_get_name_label_once [OF init_constructed]
    by (simp add: init_constructed init_constructed_twice rewrapped_def cheat_names_eq
        apply_validators_def valid_host_def session_required_def)
qed


end
